theory Spec2Isabelle
  imports Main "HOL-Library.AList" "HOL-Library.Sublist" "HOL-Library.Char_ord"
    "HOL-Library.List_Lexorder"
begin

section \<open>JavaScript strings and dates\<close>

text \<open>
  Strings are byte strings. \<open>toLowerCase\<close> is modelled on the ASCII letters, which is
  all the database types \<open>mysql\<close>, \<open>mariadb\<close>, \<open>postgres\<close>, \<open>postgresql\<close> need.
\<close>

definition lower_char :: "char \<Rightarrow> char" where
  "lower_char c =
     (case map_of (zip ''ABCDEFGHIJKLMNOPQRSTUVWXYZ'' ''abcdefghijklmnopqrstuvwxyz'') c of
        None \<Rightarrow> c
      | Some d \<Rightarrow> d)"

definition toLowerCase :: "string \<Rightarrow> string" where
  "toLowerCase s = map lower_char s"

definition startsWith :: "string \<Rightarrow> string \<Rightarrow> bool" where
  "startsWith s p = (take (length p) s = p)"

definition endsWith :: "string \<Rightarrow> string \<Rightarrow> bool" where
  "endsWith s p = (length p \<le> length s \<and> drop (length s - length p) s = p)"

fun str_includes :: "string \<Rightarrow> string \<Rightarrow> bool" where
  "str_includes [] p = (p = [])"
| "str_includes (c # cs) p = (startsWith (c # cs) p \<or> str_includes cs p)"

fun show_nat :: "nat \<Rightarrow> string" where
  "show_nat n =
     (if n < 10 then [''0123456789'' ! n]
      else show_nat (n div 10) @ [''0123456789'' ! (n mod 10)])"

declare show_nat.simps [simp del]

definition padStart :: "nat \<Rightarrow> string \<Rightarrow> string" where
  "padStart w s = replicate (w - length s) CHR ''0'' @ s"

text \<open>
  A \<open>Date\<close> is its UTC fields together with its time value (milliseconds since the
  epoch, what the subtraction of two dates compares). \<open>toISOString\<close> prints
  \<open>YYYY-MM-DDTHH:mm:ss.sssZ\<close>, with the expanded six-digit signed year outside
  \<open>0..9999\<close>.
\<close>

record js_date =
  year :: int
  month :: nat
  day :: nat
  hours :: nat
  minutes :: nat
  seconds :: nat
  milliseconds :: nat
  time_value :: int

definition iso_year :: "int \<Rightarrow> string" where
  "iso_year y =
     (if 0 \<le> y \<and> y \<le> 9999 then padStart 4 (show_nat (nat y))
      else (if y < 0 then ''-'' else ''+'') @ padStart 6 (show_nat (nat \<bar>y\<bar>)))"

definition toISOString :: "js_date \<Rightarrow> string" where
  "toISOString d =
     iso_year (year d) @ ''-'' @ padStart 2 (show_nat (month d)) @ ''-'' @
     padStart 2 (show_nat (day d)) @ ''T'' @ padStart 2 (show_nat (hours d)) @ '':'' @
     padStart 2 (show_nat (minutes d)) @ '':'' @ padStart 2 (show_nat (seconds d)) @ ''.'' @
     padStart 3 (show_nat (milliseconds d)) @ ''Z''"

text \<open>\<open>s.replace(/[:.]/g, '-')\<close>: every colon and every dot.\<close>

definition replace_colon_dot :: "string \<Rightarrow> string" where
  "replace_colon_dot s = map (\<lambda>c. if c = CHR '':'' \<or> c = CHR ''.'' then CHR ''-'' else c) s"

text \<open>\<open>s.replace('T', '_')\<close>: a string pattern replaces the first occurrence only.\<close>

fun replace_first_T :: "string \<Rightarrow> string" where
  "replace_first_T [] = []"
| "replace_first_T (c # cs) = (if c = CHR ''T'' then CHR ''_'' # cs else c # replace_first_T cs)"

text \<open>\<open>s.split('Z')[0]\<close>: the text before the first \<open>Z\<close>.\<close>

definition before_Z :: "string \<Rightarrow> string" where
  "before_Z s = takeWhile (\<lambda>c. c \<noteq> CHR ''Z'') s"

subsection \<open>index.js: generateBackupFilename\<close>

text \<open>
  The third parameter \<open>storageType\<close> is unused by the source. The date is the value of
  \<open>new Date()\<close> at the call.
\<close>

definition generateBackupFilename :: "string \<Rightarrow> string \<Rightarrow> string \<Rightarrow> js_date \<Rightarrow> string" where
  "generateBackupFilename dbName dbType storageType d =
     (let timestamp = before_Z (replace_first_T (replace_colon_dot (toISOString d)));
          extension = (if dbType = ''postgres'' \<or> dbType = ''postgresql'' then ''dump'' else ''sql.gz'')
      in dbName @ ''_'' @ timestamp @ ''.'' @ extension)"

section \<open>The environment: file system, object store, clock and dump processes\<close>

text \<open>
  A path is a normalised directory and the name of an entry in it: \<open>path.dirname\<close> and
  \<open>path.basename\<close> of the path string. The
  file system is an association list from paths to their \<open>stat\<close>, in the order
  \<open>readdirSync\<close> lists them, with the directories that exist beside it. The object store
  maps a bucket and a key to the object's \<open>LastModified\<close> time value. Whether a system
  call or a request fails is the environment's choice: \<open>faults\<close> gives the message of
  the error a call raises, if it raises one.
\<close>

type_synonym path = "string \<times> string"

text \<open>
  \<open>path.normalize\<close> on a directory string, as POSIX \<open>path.join\<close> applies it: the string
  is cut at the slashes, empty and \<open>.\<close> segments are dropped, \<open>..\<close> removes the segment
  before it (at the root it is dropped, at the start of a relative path it is kept), and
  the segments are joined again; \<open>render_dir\<close> writes the segments of a directory as a
  string. A relative directory is a directory of its own: there is no working directory
  in the model.
\<close>

fun split_slash :: "string \<Rightarrow> string list" where
  "split_slash [] = [[]]"
| "split_slash (c # cs) =
     (if c = CHR ''/'' then [] # split_slash cs
      else (case split_slash cs of [] \<Rightarrow> [[c]] | s # ss \<Rightarrow> (c # s) # ss))"

fun join_slash :: "string list \<Rightarrow> string" where
  "join_slash [] = []"
| "join_slash [s] = s"
| "join_slash (s # t # ss) = s @ ''/'' @ join_slash (t # ss)"

text \<open>The stack of segments is kept in reverse.\<close>

fun norm_segs :: "bool \<Rightarrow> string list \<Rightarrow> string list \<Rightarrow> string list" where
  "norm_segs absolute acc [] = rev acc"
| "norm_segs absolute acc (seg # rest) =
     (if seg = [] \<or> seg = ''.'' then norm_segs absolute acc rest
      else if seg = ''..'' then
        (case acc of
           [] \<Rightarrow> if absolute then norm_segs absolute [] rest else norm_segs absolute [''..''] rest
         | prev # acc' \<Rightarrow>
             if prev = ''..'' then norm_segs absolute (''..'' # acc) rest
             else norm_segs absolute acc' rest)
      else norm_segs absolute (seg # acc) rest)"

definition render_dir :: "bool \<Rightarrow> string list \<Rightarrow> string" where
  "render_dir absolute segs =
     (if absolute then ''/'' @ join_slash segs
      else if segs = [] then ''.'' else join_slash segs)"

definition normalize_dir :: "string \<Rightarrow> string" where
  "normalize_dir d =
     (let absolute = (take 1 d = ''/'')
      in render_dir absolute (norm_segs absolute [] (split_slash d)))"

text \<open>
  \<open>path.join(directory, name)\<close>: the two strings are joined with a slash, an empty one
  left out, and the result is normalised; its last segment is the name and the segments
  before it are the directory. A name with a slash in it, such as the file name
  generated for a database called \<open>a/b\<close>, ends up in a subdirectory. \<open>path_str\<close> is the
  string \<open>path.join\<close> returns. No name joined in the program ends in a slash (each is a
  name \<open>readdirSync\<close> returned, a \<open>basename\<close>, or ends in the extension of a backup), so
  the trailing slash \<open>path.normalize\<close> would keep does not occur.
\<close>

definition path_join :: "string \<Rightarrow> string \<Rightarrow> path" where
  "path_join d f =
     (let joined = (if d = [] then f else if f = [] then d else d @ ''/'' @ f);
          absolute = (take 1 joined = ''/'');
          segs = norm_segs absolute [] (split_slash joined)
      in if segs = [] then (render_dir absolute [], [])
         else (render_dir absolute (butlast segs), last segs))"

definition path_str :: "path \<Rightarrow> string" where
  "path_str p =
     (if snd p = [] then fst p
      else if fst p = ''/'' then ''/'' @ snd p
      else if fst p = ''.'' then snd p
      else fst p @ ''/'' @ snd p)"


record file_stat =
  is_file :: bool
  mtime :: int
  fsize :: nat

datatype sys_op =
    Mkdir string
  | Readdir string
  | Stat path
  | CopyFile path path
  | Unlink path
  | S3Upload string string
  | S3List string string
  | S3Delete string string

record storage_config =
  stype :: string
  spath :: string
  bucket :: string
  sprefix :: string
  keep :: nat
  accessKeyId :: string
  secretAccessKey :: string

text \<open>
  The fields of a storage entry, as the configuration loader leaves them: an absent
  string field is the empty string (both are falsy), \<open>keep\<close> is a count and \<open>0\<close> is its
  falsy value. \<open>region\<close> and \<open>endpoint\<close> only choose the client's address and are left out.
\<close>

datatype err =
    Fault sys_op string
  | NoEntry sys_op
  | TypeError string
  | UnsupportedDatabaseType string
  | UnsupportedStorageType string
  | S3CredentialsRequired
  | AllStorageFailed nat
  | ProcessError string string
  | WriteStreamError string
  | DumpExited string int string
  | DumpReportedErrors string string

text \<open>
  What the spawned dump tools do is the environment's as well. For \<open>mysqldump | gzip\<close>:
  a spawn error of either process, an error of the write stream (the staging file could
  not be opened), or the pipeline ran: its exit code, what it wrote to the diagnostic
  stream, the bytes that reached the file, and whether the \<open>close\<close> event of
  \<open>mysqldump\<close> was handled before the \<open>finish\<close> event of the write stream (the
  promise settles on the first of the two that rejects or resolves).
\<close>

datatype mysql_run =
    MySpawnError string
  | MyGzipError string
  | MyStreamError string
  | MyRan int string nat bool

datatype pg_run =
    PgSpawnError string
  | PgStreamError string
  | PgRan int string nat

datatype storage_call =
    CallSaveToLocal path storage_config
  | CallSaveToS3 path storage_config

record world =
  files :: "(path \<times> file_stat) list"
  dirs :: "string list"
  objects :: "((string \<times> string) \<times> int) list"
  faults :: "sys_op \<Rightarrow> string option"
  now :: js_date
  mysql_runs :: "string \<Rightarrow> mysql_run"
  pg_runs :: "string \<Rightarrow> pg_run"
  calls :: "storage_call list"

text \<open>
  \<open>calls\<close> is the trace of the storage backends' entry points, in call order; nothing
  reads it.
\<close>

subsection \<open>File system calls\<close>

definition existsSync :: "path \<Rightarrow> world \<Rightarrow> bool" where
  "existsSync p w = (map_of (files w) p \<noteq> None)"

text \<open>
  The calls that take a directory get the string as configured; the directory they work
  on is the normalised one. \<open>dir_exists\<close> is \<open>fs.existsSync\<close> on a directory.
\<close>

definition dir_exists :: "string \<Rightarrow> world \<Rightarrow> bool" where
  "dir_exists d w = (normalize_dir d \<in> set (dirs w))"

definition mkdirSync :: "string \<Rightarrow> world \<Rightarrow> err + world" where
  "mkdirSync d w =
     (case faults w (Mkdir (normalize_dir d)) of
        Some m \<Rightarrow> Inl (Fault (Mkdir (normalize_dir d)) m)
      | None \<Rightarrow> Inr (w\<lparr>dirs := normalize_dir d # dirs w\<rparr>))"

definition statSync :: "path \<Rightarrow> world \<Rightarrow> err + file_stat" where
  "statSync p w =
     (case faults w (Stat p) of
        Some m \<Rightarrow> Inl (Fault (Stat p) m)
      | None \<Rightarrow> (case map_of (files w) p of None \<Rightarrow> Inl (NoEntry (Stat p)) | Some st \<Rightarrow> Inr st))"

definition readdirSync :: "string \<Rightarrow> world \<Rightarrow> err + string list" where
  "readdirSync d w =
     (case faults w (Readdir (normalize_dir d)) of
        Some m \<Rightarrow> Inl (Fault (Readdir (normalize_dir d)) m)
      | None \<Rightarrow>
          if dir_exists d w
          then Inr (map (\<lambda>e. snd (fst e)) (filter (\<lambda>e. fst (fst e) = normalize_dir d) (files w)))
          else Inl (NoEntry (Readdir (normalize_dir d))))"

text \<open>\<open>copyFileSync\<close> overwrites the destination; the copy is a regular file written now.\<close>

definition copyFileSync :: "path \<Rightarrow> path \<Rightarrow> world \<Rightarrow> err + world" where
  "copyFileSync src dst w =
     (case faults w (CopyFile src dst) of
        Some m \<Rightarrow> Inl (Fault (CopyFile src dst) m)
      | None \<Rightarrow>
          (case map_of (files w) src of
             None \<Rightarrow> Inl (NoEntry (CopyFile src dst))
           | Some st \<Rightarrow>
               Inr (w\<lparr>files := AList.update dst
                      \<lparr>is_file = True, mtime = time_value (now w), fsize = fsize st\<rparr> (files w)\<rparr>)))"

definition unlinkSync :: "path \<Rightarrow> world \<Rightarrow> err + world" where
  "unlinkSync p w =
     (case faults w (Unlink p) of
        Some m \<Rightarrow> Inl (Fault (Unlink p) m)
      | None \<Rightarrow>
          if existsSync p w then Inr (w\<lparr>files := AList.delete p (files w)\<rparr>)
          else Inl (NoEntry (Unlink p)))"

text \<open>\<open>fs.createWriteStream(p)\<close> once opened: the file is there, with what was written.\<close>

definition write_file :: "path \<Rightarrow> nat \<Rightarrow> world \<Rightarrow> world" where
  "write_file p n w =
     w\<lparr>files := AList.update p \<lparr>is_file = True, mtime = time_value (now w), fsize = n\<rparr> (files w)\<rparr>"

section \<open>storage/local.js\<close>

text \<open>
  The suffix test that both rotations apply to a name:
  \<open>endsWith('.sql.gz') || endsWith('.dump')\<close>.
\<close>

definition is_backup_name :: "string \<Rightarrow> bool" where
  "is_backup_name f = (endsWith f ''.sql.gz'' \<or> endsWith f ''.dump'')"

record backup_file =
  bf_name :: string
  bf_path :: path
  bf_mtime :: int

text \<open>The \<open>filter\<close> callback over the directory's names: \<open>statSync\<close> may throw.\<close>

fun filter_backups :: "string \<Rightarrow> string list \<Rightarrow> world \<Rightarrow> err + string list" where
  "filter_backups d [] w = Inr []"
| "filter_backups d (f # fs) w =
     (case statSync (path_join d f) w of
        Inl e \<Rightarrow> Inl e
      | Inr st \<Rightarrow>
          (case filter_backups d fs w of
             Inl e \<Rightarrow> Inl e
           | Inr r \<Rightarrow> Inr (if is_file st \<and> is_backup_name f then f # r else r)))"

text \<open>The \<open>map\<close> callback: name, full path and modification time.\<close>

fun stat_backups :: "string \<Rightarrow> string list \<Rightarrow> world \<Rightarrow> err + backup_file list" where
  "stat_backups d [] w = Inr []"
| "stat_backups d (f # fs) w =
     (case statSync (path_join d f) w of
        Inl e \<Rightarrow> Inl e
      | Inr st \<Rightarrow>
          (case stat_backups d fs w of
             Inl e \<Rightarrow> Inl e
           | Inr r \<Rightarrow> Inr (\<lparr>bf_name = f, bf_path = path_join d f, bf_mtime = mtime st\<rparr> # r)))"

text \<open>The deletion loop stops at the first \<open>unlinkSync\<close> that throws; what it deleted stays deleted.\<close>

fun unlink_each :: "backup_file list \<Rightarrow> world \<Rightarrow> (err + unit) \<times> world" where
  "unlink_each [] w = (Inr (), w)"
| "unlink_each (f # fs) w =
     (case unlinkSync (bf_path f) w of
        Inl e \<Rightarrow> (Inl e, w)
      | Inr w' \<Rightarrow> unlink_each fs w')"

text \<open>
  \<open>files.sort((a, b) => b.mtime - a.mtime)\<close> is a stable sort, newest first: the stable
  insertion sort on the negated time. The \<open>catch\<close> of the source logs and throws the error
  again, so the error is the function's result.
\<close>

definition rotateLocalBackups :: "string \<Rightarrow> nat \<Rightarrow> world \<Rightarrow> (err + unit) \<times> world" where
  "rotateLocalBackups directory keepN w =
     (case readdirSync directory w of
        Inl e \<Rightarrow> (Inl e, w)
      | Inr names \<Rightarrow>
          (case filter_backups directory names w of
             Inl e \<Rightarrow> (Inl e, w)
           | Inr kept \<Rightarrow>
               (case stat_backups directory kept w of
                  Inl e \<Rightarrow> (Inl e, w)
                | Inr fs \<Rightarrow>
                    (let sorted = sort_key (\<lambda>f. - bf_mtime f) fs
                     in if length sorted > keepN then unlink_each (drop keepN sorted) w
                        else (Inr (), w)))))"

text \<open>
  \<open>saveToLocal\<close> up to its log line \<open>Backup saved to\<close>: the storage directory is made if
  it is missing and the staging file is copied unless the two path strings are equal.
\<close>

definition local_copy :: "path \<Rightarrow> storage_config \<Rightarrow> world \<Rightarrow> (err + path) \<times> world" where
  "local_copy backupFilePath sc w =
     (let storagePath = spath sc;
          destinationPath = path_join storagePath (snd backupFilePath)
      in case (if dir_exists storagePath w then Inr w else mkdirSync storagePath w) of
           Inl e \<Rightarrow> (Inl e, w)
         | Inr w1 \<Rightarrow>
             if path_str backupFilePath \<noteq> path_str destinationPath then
               (case copyFileSync backupFilePath destinationPath w1 of
                  Inl e \<Rightarrow> (Inl e, w1)
                | Inr w2 \<Rightarrow> (Inr destinationPath, w2))
             else (Inr destinationPath, w1))"

text \<open>\<open>config.storage.keep || 10\<close>\<close>

definition keep_or_default :: "storage_config \<Rightarrow> nat" where
  "keep_or_default sc = (if keep sc = 0 then 10 else keep sc)"

definition saveToLocal :: "path \<Rightarrow> storage_config \<Rightarrow> world \<Rightarrow> (err + string) \<times> world" where
  "saveToLocal backupFilePath sc w =
     (case local_copy backupFilePath sc (w\<lparr>calls := calls w @ [CallSaveToLocal backupFilePath sc]\<rparr>) of
        (Inl e, w1) \<Rightarrow> (Inl e, w1)
      | (Inr destinationPath, w1) \<Rightarrow>
          (case rotateLocalBackups (spath sc) (keep_or_default sc) w1 of
             (Inl e, w2) \<Rightarrow> (Inl e, w2)
           | (Inr u, w2) \<Rightarrow> (Inr (path_str destinationPath), w2)))"

section \<open>storage/s3.js\<close>

text \<open>
  A listed object is its key and its \<open>LastModified\<close> time. The source sends one
  \<open>ListObjectsV2\<close> request, without \<open>MaxKeys\<close> and without following a continuation
  token: the service answers with the objects of the bucket under the prefix in the
  order of their keys (bytewise), and with the first 1000 of them only. Deleting a key
  that is not there succeeds, as the service does.
\<close>

definition list_page_size :: nat where
  "list_page_size = 1000"

definition s3_under_prefix :: "string \<Rightarrow> string \<Rightarrow> world \<Rightarrow> ((string \<times> string) \<times> int) list" where
  "s3_under_prefix b pre w =
     filter (\<lambda>e. fst (fst e) = b \<and> startsWith (snd (fst e)) pre) (objects w)"

definition s3_list :: "string \<Rightarrow> string \<Rightarrow> world \<Rightarrow> (string \<times> int) list" where
  "s3_list b pre w =
     take list_page_size
       (sort_key fst (map (\<lambda>e. (snd (fst e), snd e)) (s3_under_prefix b pre w)))"

fun delete_each :: "string \<Rightarrow> (string \<times> int) list \<Rightarrow> world \<Rightarrow> (err + unit) \<times> world" where
  "delete_each b [] w = (Inr (), w)"
| "delete_each b (f # fs) w =
     (case faults w (S3Delete b (fst f)) of
        Some m \<Rightarrow> (Inl (Fault (S3Delete b (fst f)) m), w)
      | None \<Rightarrow> delete_each b fs (w\<lparr>objects := AList.delete (b, fst f) (objects w)\<rparr>))"

definition rotateS3Backups :: "string \<Rightarrow> string \<Rightarrow> nat \<Rightarrow> world \<Rightarrow> (err + unit) \<times> world" where
  "rotateS3Backups b pre keepN w =
     (case faults w (S3List b pre) of
        Some m \<Rightarrow> (Inl (Fault (S3List b pre) m), w)
      | None \<Rightarrow>
          (let contents = s3_list b pre w
           in if contents = [] then (Inr (), w)
              else
                (let backupFiles =
                       sort_key (\<lambda>f. - snd f) (filter (\<lambda>f. is_backup_name (fst f)) contents)
                 in if length backupFiles > keepN then delete_each b (drop keepN backupFiles) w
                    else (Inr (), w))))"

text \<open>
  \<open>saveToS3\<close> inside its \<open>try\<close>, up to \<open>await upload.done()\<close>: the staging file is
  \<open>stat\<close>ed and the object is put under \<open>prefix + basename\<close>.
\<close>

definition s3_upload :: "path \<Rightarrow> storage_config \<Rightarrow> world \<Rightarrow> (err + string) \<times> world" where
  "s3_upload backupFilePath sc w =
     (let s3Key = sprefix sc @ snd backupFilePath
      in case statSync backupFilePath w of
           Inl e \<Rightarrow> (Inl e, w)
         | Inr stats \<Rightarrow>
             (case faults w (S3Upload (bucket sc) s3Key) of
                Some m \<Rightarrow> (Inl (Fault (S3Upload (bucket sc) s3Key) m), w)
              | None \<Rightarrow>
                  (Inr s3Key,
                   w\<lparr>objects := AList.update (bucket sc, s3Key) (time_value (now w)) (objects w)\<rparr>)))"

definition saveToS3 :: "path \<Rightarrow> storage_config \<Rightarrow> world \<Rightarrow> (err + string) \<times> world" where
  "saveToS3 backupFilePath sc w =
     (let w0 = w\<lparr>calls := calls w @ [CallSaveToS3 backupFilePath sc]\<rparr>
      in if accessKeyId sc = [] \<or> secretAccessKey sc = [] then (Inl S3CredentialsRequired, w0)
         else
           (case s3_upload backupFilePath sc w0 of
              (Inl e, w1) \<Rightarrow> (Inl e, w1)
            | (Inr s3Key, w1) \<Rightarrow>
                (case rotateS3Backups (bucket sc) (sprefix sc) (keep_or_default sc) w1 of
                   (Inl e, w2) \<Rightarrow> (Inl e, w2)
                 | (Inr u, w2) \<Rightarrow> (Inr (''s3://'' @ bucket sc @ ''/'' @ s3Key), w2))))"

section \<open>backup/mysql.js and backup/postgres.js\<close>

text \<open>
  Both producers open the write stream on the staging path before the tool runs, and
  neither removes the file when it rejects. A write stream error stands for a file that
  could not be opened; in every other case the file is there when the promise settles.
\<close>

definition backupMySQL :: "string \<Rightarrow> path \<Rightarrow> world \<Rightarrow> (err + nat) \<times> world" where
  "backupMySQL name backupPath w =
     (case mysql_runs w name of
        MyStreamError m \<Rightarrow> (Inl (WriteStreamError m), w)
      | MySpawnError m \<Rightarrow> (Inl (ProcessError ''mysqldump'' m), write_file backupPath 0 w)
      | MyGzipError m \<Rightarrow> (Inl (ProcessError ''gzip'' m), write_file backupPath 0 w)
      | MyRan code stderr n close_first \<Rightarrow>
          (let w' = write_file backupPath n w
           in if close_first \<and> code \<noteq> 0 then (Inl (DumpExited ''mysqldump'' code stderr), w')
              else if stderr \<noteq> [] \<and> str_includes stderr ''ERROR''
                then (Inl (DumpReportedErrors ''mysqldump'' stderr), w')
              else (Inr n, w')))"

definition backupPostgres :: "string \<Rightarrow> path \<Rightarrow> world \<Rightarrow> (err + nat) \<times> world" where
  "backupPostgres name backupPath w =
     (case pg_runs w name of
        PgStreamError m \<Rightarrow> (Inl (WriteStreamError m), w)
      | PgSpawnError m \<Rightarrow> (Inl (ProcessError ''pg_dump'' m), write_file backupPath 0 w)
      | PgRan code stderr n \<Rightarrow>
          (let w' = write_file backupPath n w
           in if code \<noteq> 0 then (Inl (DumpExited ''pg_dump'' code stderr), w')
              else if str_includes (toLowerCase stderr) ''error:''
                then (Inl (DumpReportedErrors ''pg_dump'' stderr), w')
              else (Inr n, w')))"

section \<open>index.js: backupDatabase\<close>

text \<open>
  A database entry after loading: its type, whether it is enabled, and its storage
  list. The connection fields only become arguments of the dump tool. The duration of a
  result is wall-clock time and is left out.
\<close>

record db_config =
  dtype :: string
  enabled :: bool
  storage :: "storage_config list"

record stored =
  s_type :: string
  s_path :: string
  s_success :: bool

record store_error =
  e_type :: string
  e_error :: err
  e_success :: bool

record db_result =
  rname :: string
  success :: bool
  storages :: "stored list"
  storageErrors :: "store_error list"
  rsize :: "nat option"
  error :: "err option"

definition tempDir :: string where
  "tempDir = ''/tmp/backups''"

text \<open>
  The staging path: \<open>path.join(tempDir, filename)\<close>, the file name generated from the
  entry's name, its type as configured and the first storage entry's type.
\<close>

definition staging_path :: "string \<Rightarrow> db_config \<Rightarrow> storage_config \<Rightarrow> world \<Rightarrow> path" where
  "staging_path name config s0 w =
     path_join tempDir (generateBackupFilename name (dtype config) (stype s0) (now w))"

text \<open>
  \<open>if (!fs.existsSync(tempDir)) fs.mkdirSync(tempDir, { recursive: true })\<close>
\<close>

definition ensure_tempDir :: "world \<Rightarrow> err + world" where
  "ensure_tempDir w = (if dir_exists tempDir w then Inr w else mkdirSync tempDir w)"

text \<open>The dispatch on \<open>config.type.toLowerCase()\<close>.\<close>

definition run_dump :: "string \<Rightarrow> db_config \<Rightarrow> path \<Rightarrow> world \<Rightarrow> (err + nat) \<times> world" where
  "run_dump name config backupPath w =
     (let dbType = toLowerCase (dtype config)
      in if dbType = ''mysql'' \<or> dbType = ''mariadb'' then backupMySQL name backupPath w
         else if dbType = ''postgres'' \<or> dbType = ''postgresql'' then backupPostgres name backupPath w
         else (Inl (UnsupportedDatabaseType (dtype config)), w))"

text \<open>One turn of the loop over \<open>config.storage\<close>, with its own \<open>try\<close> and \<open>catch\<close>.\<close>

definition store_one ::
  "path \<Rightarrow> storage_config \<Rightarrow> stored list \<times> store_error list \<times> world \<Rightarrow>
   stored list \<times> store_error list \<times> world" where
  "store_one backupPath sc acc =
     (case acc of (oks, errs, w) \<Rightarrow>
        (case (if stype sc = ''local'' then saveToLocal backupPath sc w
               else if stype sc = ''s3'' then saveToS3 backupPath sc w
               else (Inl (UnsupportedStorageType (stype sc)), w)) of
           (Inr storagePath, w') \<Rightarrow>
             (oks @ [\<lparr>s_type = stype sc, s_path = storagePath, s_success = True\<rparr>], errs, w')
         | (Inl e, w') \<Rightarrow>
             (oks, errs @ [\<lparr>e_type = stype sc, e_error = e, e_success = False\<rparr>], w')))"

fun store_all ::
  "path \<Rightarrow> storage_config list \<Rightarrow> stored list \<times> store_error list \<times> world \<Rightarrow>
   stored list \<times> store_error list \<times> world" where
  "store_all backupPath [] acc = acc"
| "store_all backupPath (sc # scs) acc = store_all backupPath scs (store_one backupPath sc acc)"

text \<open>
  The body of the outer \<open>try\<close>. \<open>config.storage[0].type\<close> is evaluated for the unused
  third argument of \<open>generateBackupFilename\<close> and throws on an empty list.
\<close>

definition backup_try :: "string \<Rightarrow> db_config \<Rightarrow> world \<Rightarrow> (err + db_result) \<times> world" where
  "backup_try name config w =
     (case ensure_tempDir w of
        Inl e \<Rightarrow> (Inl e, w)
      | Inr w1 \<Rightarrow>
          (case storage config of
             [] \<Rightarrow> (Inl (TypeError ''config.storage[0] is undefined''), w1)
           | s0 # rest \<Rightarrow>
               (let backupPath = staging_path name config s0 w1
                in case run_dump name config backupPath w1 of
                     (Inl e, w2) \<Rightarrow> (Inl e, w2)
                   | (Inr sz, w2) \<Rightarrow>
                       (case store_all backupPath (storage config) ([], [], w2) of
                          (oks, errs, w3) \<Rightarrow>
                            (case (if existsSync backupPath w3 then unlinkSync backupPath w3
                                   else Inr w3) of
                               Inl e \<Rightarrow> (Inl e, w3)
                             | Inr w4 \<Rightarrow>
                                 if length oks > 0 then
                                   (Inr \<lparr>rname = name, success = True, storages = oks,
                                         storageErrors = errs, rsize = Some sz, error = None\<rparr>, w4)
                                 else (Inl (AllStorageFailed (length errs)), w4))))))"

text \<open>The outer \<open>catch\<close> turns any error of the body into a failed result.\<close>

definition backupDatabase :: "string \<Rightarrow> db_config \<Rightarrow> world \<Rightarrow> db_result \<times> world" where
  "backupDatabase name config w =
     (case backup_try name config w of
        (Inr r, w') \<Rightarrow> (r, w')
      | (Inl e, w') \<Rightarrow>
          (\<lparr>rname = name, success = False, storages = [], storageErrors = [],
            rsize = None, error = Some e\<rparr>, w'))"

section \<open>config.js\<close>

text \<open>
  What \<open>yaml.load\<close> returns is a JavaScript value. Numbers are the integers and \<open>NaN\<close>;
  an object is its properties in order.
\<close>

datatype jsval =
    JUndefined
  | JNull
  | JBool bool
  | JNum int
  | JNaN
  | JStr string
  | JArr "jsval list"
  | JObj "(string \<times> jsval) list"

text \<open>\<open>Boolean(v)\<close>, which is also what \<open>!v\<close> and \<open>if (v)\<close> test.\<close>

fun truthy :: "jsval \<Rightarrow> bool" where
  "truthy JUndefined = False"
| "truthy JNull = False"
| "truthy (JBool b) = b"
| "truthy (JNum n) = (n \<noteq> 0)"
| "truthy JNaN = False"
| "truthy (JStr s) = (s \<noteq> [])"
| "truthy (JArr xs) = True"
| "truthy (JObj fs) = True"

datatype cfg_err =
    NoDatabases
  | MissingFields string "string list"
  | InvalidType string string
  | EmptyStorageArray string
  | InvalidStorageType string "nat option" jsval
  | LocalRequiresPath string "nat option"
  | S3RequiresBucket string "nat option"
  | CfgTypeError string
  | WebhookNotString
  | InvalidWebhookUrl string

definition get_field :: "(string \<times> jsval) list \<Rightarrow> string \<Rightarrow> jsval" where
  "get_field fs k = (case map_of fs k of None \<Rightarrow> JUndefined | Some v \<Rightarrow> v)"

text \<open>
  Reading a property of a value: a \<open>TypeError\<close> on \<open>undefined\<close> and \<open>null\<close>, the field of
  an object, and \<open>undefined\<close> on the other values, which have none of the fields the
  loader reads.
\<close>

fun read_prop :: "jsval \<Rightarrow> string \<Rightarrow> cfg_err + jsval" where
  "read_prop JUndefined k = Inl (CfgTypeError k)"
| "read_prop JNull k = Inl (CfgTypeError k)"
| "read_prop (JObj fs) k = Inr (get_field fs k)"
| "read_prop v k = Inr JUndefined"

definition validateStorageConfig :: "string \<Rightarrow> jsval \<Rightarrow> nat option \<Rightarrow> cfg_err + unit" where
  "validateStorageConfig name storageConfig storageIndex =
     (case read_prop storageConfig ''type'' of
        Inl e \<Rightarrow> Inl e
      | Inr t \<Rightarrow>
          if t \<noteq> JStr ''local'' \<and> t \<noteq> JStr ''s3'' then Inl (InvalidStorageType name storageIndex t)
          else
            (case read_prop storageConfig ''path'' of
               Inl e \<Rightarrow> Inl e
             | Inr p \<Rightarrow>
                 if t = JStr ''local'' \<and> \<not> truthy p then Inl (LocalRequiresPath name storageIndex)
                 else
                   (case read_prop storageConfig ''bucket'' of
                      Inl e \<Rightarrow> Inl e
                    | Inr b \<Rightarrow>
                        if t = JStr ''s3'' \<and> \<not> truthy b then Inl (S3RequiresBucket name storageIndex)
                        else Inr ())))"

text \<open>\<open>config.storage.forEach((storageConfig, index) => ...)\<close>, from \<open>index\<close> on.\<close>

fun validate_each :: "string \<Rightarrow> jsval list \<Rightarrow> nat \<Rightarrow> cfg_err + unit" where
  "validate_each name [] i = Inr ()"
| "validate_each name (s # ss) i =
     (case validateStorageConfig name s (Some i) of
        Inl e \<Rightarrow> Inl e
      | Inr u \<Rightarrow> validate_each name ss (Suc i))"

definition validTypes :: "string list" where
  "validTypes = [''mysql'', ''mariadb'', ''postgres'', ''postgresql'']"

text \<open>
  A truthy \<open>type\<close> that is not a string has no \<open>toLowerCase\<close>: the call is a
  \<open>TypeError\<close>.
\<close>

definition validateDatabaseConfig :: "string \<Rightarrow> (string \<times> jsval) list \<Rightarrow> cfg_err + unit" where
  "validateDatabaseConfig name config =
     (let required = [''database'', ''type'', ''host'', ''username''];
          missing = filter (\<lambda>field. \<not> truthy (get_field config field)) required
      in if length missing > 0 then Inl (MissingFields name missing)
         else
           (case get_field config ''type'' of
              JStr t \<Rightarrow>
                if toLowerCase t \<notin> set validTypes then Inl (InvalidType name t)
                else
                  (let st = get_field config ''storage''
                   in if truthy st then
                        (case st of
                           JArr ss \<Rightarrow>
                             if length ss = 0 then Inl (EmptyStorageArray name)
                             else validate_each name ss 0
                         | other \<Rightarrow> validateStorageConfig name st None)
                      else Inr ())
            | other \<Rightarrow> Inl (CfgTypeError ''toLowerCase'')))"

text \<open>
  The normalisation of \<open>enabled\<close>: \<open>true\<close> when it is \<open>undefined\<close> or \<open>null\<close>, otherwise
  \<open>Boolean(dbConfig.enabled)\<close>.
\<close>

definition normalize_enabled :: "jsval \<Rightarrow> bool" where
  "normalize_enabled v = (if v = JUndefined \<or> v = JNull then True else truthy v)"

text \<open>\<open>if (!storageConfig.keep) storageConfig.keep = 10\<close> over the storage array.\<close>

fun default_keep :: "jsval list \<Rightarrow> cfg_err + jsval list" where
  "default_keep [] = Inr []"
| "default_keep (s # ss) =
     (case s of
        JObj fs \<Rightarrow>
          (case default_keep ss of
             Inl e \<Rightarrow> Inl e
           | Inr r \<Rightarrow>
               Inr ((if \<not> truthy (get_field fs ''keep'')
                     then JObj (AList.update ''keep'' (JNum 10) fs) else s) # r))
      | other \<Rightarrow> Inl (CfgTypeError ''keep''))"

text \<open>
  One turn of the loop over \<open>Object.entries(config.databases)\<close>, for an entry that is an
  object: the entry as the loop leaves it, or the error it throws.
\<close>

definition load_entry :: "string \<Rightarrow> (string \<times> jsval) list \<Rightarrow> cfg_err + (string \<times> jsval) list" where
  "load_entry name dbConfig =
     (let c1 = AList.update ''enabled'' (JBool (normalize_enabled (get_field dbConfig ''enabled''))) dbConfig
      in if get_field c1 ''enabled'' = JBool False then Inr c1
         else
           (case validateDatabaseConfig name c1 of
              Inl e \<Rightarrow> Inl e
            | Inr u \<Rightarrow>
                (let t = get_field c1 ''type'';
                     c2 = (if \<not> truthy (get_field c1 ''port'')
                           then AList.update ''port''
                                  (JNum (if t = JStr ''postgres'' \<or> t = JStr ''postgresql''
                                         then 5432 else 3306)) c1
                           else c1);
                     st = get_field c2 ''storage'';
                     c3 = (if \<not> truthy st
                           then AList.update ''storage''
                                  (JArr [JObj [(''type'', JStr ''local''), (''path'', JStr ''/backups''),
                                               (''keep'', JNum 10)]]) c2
                           else (case st of
                                   JArr ss \<Rightarrow> c2
                                 | other \<Rightarrow> AList.update ''storage'' (JArr [st]) c2))
                 in case get_field c3 ''storage'' of
                      JArr ss \<Rightarrow>
                        (case default_keep ss of
                           Inl e \<Rightarrow> Inl e
                         | Inr ss' \<Rightarrow> Inr (AList.update ''storage'' (JArr ss') c3))
                    | other \<Rightarrow> Inl (CfgTypeError ''forEach''))))"

text \<open>
  The loop stops at the first entry that throws. An entry that is \<open>null\<close> throws on its
  first property read, and one that is a string, a number or a boolean on the assignment
  to \<open>enabled\<close> (modules are strict); an array has no named field.
\<close>

fun load_entries :: "(string \<times> jsval) list \<Rightarrow> cfg_err + (string \<times> jsval) list" where
  "load_entries [] = Inr []"
| "load_entries (d # ds) =
     (case (case snd d of
              JObj fs \<Rightarrow> load_entry (fst d) fs
            | JArr xs \<Rightarrow> load_entry (fst d) []
            | other \<Rightarrow> Inl (CfgTypeError ''enabled'')) of
        Inl e \<Rightarrow> Inl e
      | Inr c \<Rightarrow>
          (case load_entries ds of
             Inl e \<Rightarrow> Inl e
           | Inr cs \<Rightarrow> Inr ((fst d, JObj c) # cs)))"

text \<open>
  \<open>loadConfig\<close> from the parsed document on: the entries of \<open>databases\<close> when it is a
  mapping (\<open>None\<close> when the key is absent or falsy) and the value of \<open>webhook\<close>. Which
  strings \<open>new URL\<close> accepts is a parameter.
\<close>

record parsed_config =
  databases :: "(string \<times> jsval) list option"
  webhook :: jsval

definition loadConfig :: "(string \<Rightarrow> bool) \<Rightarrow> parsed_config \<Rightarrow> cfg_err + parsed_config" where
  "loadConfig valid_url config =
     (case databases config of
        None \<Rightarrow> Inl NoDatabases
      | Some ds \<Rightarrow>
          if length ds = 0 then Inl NoDatabases
          else
            (case load_entries ds of
               Inl e \<Rightarrow> Inl e
             | Inr ds' \<Rightarrow>
                 if truthy (webhook config) then
                   (case webhook config of
                      JStr u \<Rightarrow>
                        if valid_url u then Inr (config\<lparr>databases := Some ds'\<rparr>)
                        else Inl (InvalidWebhookUrl u)
                    | other \<Rightarrow> Inl WebhookNotString)
                 else Inr (config\<lparr>databases := Some ds'\<rparr>)))"

section \<open>index.js: main\<close>

text \<open>
  \<open>main\<close> from the loaded configuration on: \<open>loadConfig\<close> either threw or returned the
  databases in their order. The only option that matters is the list of \<open>--database\<close>
  names. The webhook is sent by a function that catches every error of its own and
  changes nothing \<open>main\<close> reads afterwards.
\<close>

record run_outcome =
  exit_code :: nat
  results :: "db_result list"
  skipped :: "string list"

fun run_enabled :: "(string \<times> db_config) list \<Rightarrow> world \<Rightarrow> db_result list \<times> world" where
  "run_enabled [] w = ([], w)"
| "run_enabled (d # ds) w =
     (case backupDatabase (fst d) (snd d) w of
        (r, w') \<Rightarrow> (case run_enabled ds w' of (rs, w'') \<Rightarrow> (r # rs, w'')))"

definition main ::
  "string list \<Rightarrow> cfg_err + (string \<times> db_config) list \<Rightarrow> world \<Rightarrow> run_outcome \<times> world" where
  "main opt_database loaded w =
     (case loaded of
        Inl e \<Rightarrow> (\<lparr>exit_code = 1, results = [], skipped = []\<rparr>, w)
      | Inr dbs \<Rightarrow>
          (let allDatabases =
                 (if opt_database \<noteq> [] then filter (\<lambda>d. fst d \<in> set opt_database) dbs
                  else dbs)
           in if opt_database \<noteq> [] \<and> allDatabases = []
              then (\<lparr>exit_code = 1, results = [], skipped = []\<rparr>, w)
              else
                (let enabledDatabases = filter (\<lambda>d. enabled (snd d) \<noteq> False) allDatabases;
                     disabledDatabases = filter (\<lambda>d. enabled (snd d) = False) allDatabases
                 in case run_enabled enabledDatabases w of
                      (rs, w') \<Rightarrow>
                        (let failed = length (filter (\<lambda>r. \<not> success r) rs)
                         in (\<lparr>exit_code = (if failed > 0 then 1 else 0), results = rs,
                              skipped = map fst disabledDatabases\<rparr>, w')))))"

section \<open>Example inputs\<close>

text \<open>
  A clock reading, an empty machine on which every call succeeds and both dump tools
  write 100 bytes and exit with 0, and storage entries of both kinds.
\<close>

definition ex_date :: js_date where
  "ex_date = \<lparr>year = 2024, month = 1, day = 15, hours = 10, minutes = 30, seconds = 0,
               milliseconds = 0, time_value = 1705314600000\<rparr>"

definition ex_world :: world where
  "ex_world = \<lparr>files = [], dirs = [], objects = [], faults = (\<lambda>op. None), now = ex_date,
                mysql_runs = (\<lambda>n. MyRan 0 [] 100 True), pg_runs = (\<lambda>n. PgRan 0 [] 100),
                calls = []\<rparr>"

definition ex_local :: "string \<Rightarrow> nat \<Rightarrow> storage_config" where
  "ex_local p k = \<lparr>stype = ''local'', spath = p, bucket = [], sprefix = [], keep = k,
                   accessKeyId = [], secretAccessKey = []\<rparr>"

definition ex_s3 :: "string \<Rightarrow> nat \<Rightarrow> storage_config" where
  "ex_s3 b k = \<lparr>stype = ''s3'', spath = [], bucket = b, sprefix = [], keep = k,
                accessKeyId = ''id'', secretAccessKey = ''secret''\<rparr>"

definition ex_db :: "string \<Rightarrow> storage_config list \<Rightarrow> db_config" where
  "ex_db t ss = \<lparr>dtype = t, enabled = True, storage = ss\<rparr>"

text \<open>
  The same machine where \<open>mysqldump\<close> exits with code 2, and where every
  \<open>copyFileSync\<close> fails.
\<close>

definition ex_world_dump_fails :: world where
  "ex_world_dump_fails = ex_world\<lparr>mysql_runs := (\<lambda>n. MyRan 2 ''Access denied'' 0 True)\<rparr>"

definition ex_world_copy_fails :: world where
  "ex_world_copy_fails =
     ex_world\<lparr>faults := (\<lambda>op. case op of CopyFile s d \<Rightarrow> Some ''EACCES'' | other \<Rightarrow> None)\<rparr>"

text \<open>The same machine where no file of the staging directory can be unlinked.\<close>

definition ex_world_cleanup_fails :: world where
  "ex_world_cleanup_fails =
     ex_world\<lparr>faults := (\<lambda>op. case op of
                             Unlink p \<Rightarrow> if fst p = ''/tmp/backups'' then Some ''EBUSY'' else None
                           | other \<Rightarrow> None)\<rparr>"

text \<open>
  For the statements about the storage loop: the location a backend returns when it
  succeeds (\<open>destinationPath\<close> of \<open>saveToLocal\<close>, the \<open>s3://\<close> address of \<open>saveToS3\<close>), the
  entry point the loop calls for an entry, and whether the loop has one for its type.
\<close>

definition store_location :: "path \<Rightarrow> storage_config \<Rightarrow> string" where
  "store_location p sc =
     (if stype sc = ''local'' then path_str (path_join (spath sc) (snd p))
      else ''s3://'' @ bucket sc @ ''/'' @ sprefix sc @ snd p)"

definition backend_call :: "path \<Rightarrow> storage_config \<Rightarrow> storage_call" where
  "backend_call p sc = (if stype sc = ''local'' then CallSaveToLocal p sc else CallSaveToS3 p sc)"

definition has_backend :: "storage_config \<Rightarrow> bool" where
  "has_backend sc = (stype sc = ''local'' \<or> stype sc = ''s3'')"

text \<open>
  A machine with an old backup in \<open>/backups\<close> that cannot be unlinked, and a staging
  file.
\<close>

definition ex_world_rotation_fails :: world where
  "ex_world_rotation_fails =
     ex_world\<lparr>files := [((''/backups'', ''old.sql.gz''), \<lparr>is_file = True, mtime = 5, fsize = 1\<rparr>),
                        ((''/tmp/backups'', ''x.sql.gz''), \<lparr>is_file = True, mtime = 9, fsize = 1\<rparr>)],
              dirs := [''/backups''],
              faults := (\<lambda>op. case op of
                           Unlink p \<Rightarrow> if p = (''/backups'', ''old.sql.gz'') then Some ''EACCES'' else None
                         | other \<Rightarrow> None)\<rparr>"





text \<open>Entries of \<open>databases\<close>: one enabled by the string \<open>false\<close>, as the loop leaves it, and one switched off.\<close>

definition ex_entry_false :: "(string \<times> jsval) list" where
  "ex_entry_false =
     [(''enabled'', JStr ''false''), (''database'', JStr ''shop''), (''type'', JStr ''mysql''),
      (''host'', JStr ''localhost''), (''username'', JStr ''root'')]"

definition ex_entry_false_loaded :: "(string \<times> jsval) list" where
  "ex_entry_false_loaded =
     [(''enabled'', JBool True), (''database'', JStr ''shop''), (''type'', JStr ''mysql''),
      (''host'', JStr ''localhost''), (''username'', JStr ''root''), (''port'', JNum 3306),
      (''storage'', JArr [JObj [(''type'', JStr ''local''), (''path'', JStr ''/backups''),
                                (''keep'', JNum 10)]])]"

definition ex_entry_off :: "(string \<times> jsval) list" where
  "ex_entry_off = [(''enabled'', JNum 0), (''type'', JStr ''oracle'')]"

section \<open>The overall success of a result\<close>

text \<open>
  C5. The result that \<open>backupDatabase\<close> returns has \<open>success\<close> true exactly when its list
  of successful destination outcomes is not empty.
\<close>

theorem C5_success_iff_stored:
  "success (fst (backupDatabase name config w)) =
     (0 < length (storages (fst (backupDatabase name config w))))"
  unfolding backupDatabase_def backup_try_def
  by (auto simp: Let_def split: sum.splits prod.splits list.splits if_splits)

theorem C5_success_iff_stored_witness:
  "success (fst (backupDatabase ''db'' (ex_db ''mysql'' [ex_local ''/backups'' 1]) ex_world)) \<and>
   0 < length (storages (fst (backupDatabase ''db'' (ex_db ''mysql'' [ex_local ''/backups'' 1]) ex_world)))"
proof -
  have run: "success (fst (backupDatabase ''db'' (ex_db ''mysql'' [ex_local ''/backups'' 1]) ex_world))"
    by code_simp
  with C5_success_iff_stored [of "''db''" "ex_db ''mysql'' [ex_local ''/backups'' 1]" ex_world]
  show ?thesis by simp
qed

section \<open>Shared lemmas\<close>

lemma pair_Inr: "\<not> isl (fst x) \<Longrightarrow> x = (Inr (projr (fst x)), snd x)"
  by (cases x) (auto simp: sum.collapse)

lemma pair_Inl: "isl (fst x) \<Longrightarrow> x = (Inl (projl (fst x)), snd x)"
  by (cases x) (auto simp: sum.collapse)

lemma sum_Inr: "\<not> isl x \<Longrightarrow> x = Inr (projr x)"
  by simp

lemma triple_collapse: "x = (fst x, fst (snd x), snd (snd x))"
  by simp

lemma calls_write_file [simp]: "calls (write_file p n w) = calls w"
  by (simp add: write_file_def)

lemma run_dump_calls: "run_dump name config p w = (r, w') \<Longrightarrow> calls w' = calls w"
  unfolding run_dump_def backupMySQL_def backupPostgres_def
  by (auto simp: Let_def split: if_splits mysql_run.splits pg_run.splits)

lemma ensure_tempDir_calls: "ensure_tempDir w = Inr w1 \<Longrightarrow> calls w1 = calls w"
  unfolding ensure_tempDir_def mkdirSync_def
  by (auto split: if_splits option.splits)

text \<open>Every turn of the storage loop adds exactly one outcome to one of the two lists.\<close>

lemma store_all_length:
  "store_all p scs (oks0, errs0, w) = (oks, errs, w') \<Longrightarrow>
     length oks + length errs = length oks0 + length errs0 + length scs"
proof (induction scs arbitrary: oks0 errs0 w)
  case Nil
  then show ?case by simp
next
  case (Cons sc scs)
  obtain o1 e1 w1 where s1: "store_one p sc (oks0, errs0, w) = (o1, e1, w1)"
    by (cases "store_one p sc (oks0, errs0, w)") auto
  then have "length o1 + length e1 = length oks0 + length errs0 + 1"
    by (auto simp: store_one_def split: prod.splits sum.splits)
  with Cons s1 show ?case by fastforce
qed

section \<open>A failed dump\<close>

text \<open>
  C8. When the dump producer fails for a database, \<open>backupDatabase\<close> returns the failed
  result that carries the producer's error, with \<open>storages\<close> and \<open>storageErrors\<close> both
  empty; the world it leaves is the one the producer left, and the trace of storage
  backend calls is what it was before: no store call was made.
\<close>

theorem C8_dump_failure_stores_nothing:
  assumes "ensure_tempDir w = Inr w1"
    and "storage config = s0 # rest"
    and "run_dump name config (staging_path name config s0 w1) w1 = (Inl e, w2)"
  shows "backupDatabase name config w =
           (\<lparr>rname = name, success = False, storages = [], storageErrors = [],
             rsize = None, error = Some e\<rparr>, w2)
         \<and> calls w2 = calls w"
  using assms run_dump_calls [OF assms(3)] ensure_tempDir_calls [OF assms(1)]
  unfolding backupDatabase_def backup_try_def
  by (simp add: Let_def)

theorem C8_dump_failure_stores_nothing_witness:
  "error (fst (backupDatabase ''db'' (ex_db ''mysql'' [ex_local ''/backups'' 10]) ex_world_dump_fails))
     = Some (DumpExited ''mysqldump'' 2 ''Access denied'') \<and>
   storages (fst (backupDatabase ''db'' (ex_db ''mysql'' [ex_local ''/backups'' 10]) ex_world_dump_fails)) = [] \<and>
   storageErrors (fst (backupDatabase ''db'' (ex_db ''mysql'' [ex_local ''/backups'' 10]) ex_world_dump_fails)) = [] \<and>
   calls (snd (backupDatabase ''db'' (ex_db ''mysql'' [ex_local ''/backups'' 10]) ex_world_dump_fails)) = []"
proof -
  let ?cfg = "ex_db ''mysql'' [ex_local ''/backups'' 10]"
  let ?w1 = "projr (ensure_tempDir ex_world_dump_fails)"
  let ?d = "run_dump ''db'' ?cfg (staging_path ''db'' ?cfg (ex_local ''/backups'' 10) ?w1) ?w1"
  have h1: "ensure_tempDir ex_world_dump_fails = Inr ?w1"
    by (rule sum_Inr) code_simp
  have h2: "storage ?cfg = ex_local ''/backups'' 10 # []"
    by (simp add: ex_db_def)
  have "isl (fst ?d)" by code_simp
  then have h3: "?d = (Inl (projl (fst ?d)), snd ?d)" by (rule pair_Inl)
  have e: "projl (fst ?d) = DumpExited ''mysqldump'' 2 ''Access denied''" by code_simp
  have c: "calls ex_world_dump_fails = []" by code_simp
  from C8_dump_failure_stores_nothing [OF h1 h2 h3] e c show ?thesis by simp
qed

section \<open>The staging file\<close>

text \<open>
  Where the body of \<open>backupDatabase\<close> gets past the storage loop and the removal of the
  staging file does not throw, the staging file is gone: both when a result is returned
  and when every destination failed.
\<close>

lemma staging_removed_after_fanout:
  assumes "ensure_tempDir w = Inr w1"
    and "storage config = s0 # rest"
    and "run_dump name config (staging_path name config s0 w1) w1 = (Inr sz, w2)"
    and "backup_try name config w = (res, w')"
    and "\<forall>m. res \<noteq> Inl (Fault (Unlink (staging_path name config s0 w1)) m)"
  shows "\<not> existsSync (staging_path name config s0 w1) w'"
proof -
  let ?p = "staging_path name config s0 w1"
  obtain oks errs w3 where st: "store_all ?p (storage config) ([], [], w2) = (oks, errs, w3)"
    by (cases "store_all ?p (storage config) ([], [], w2)") auto
  show ?thesis
  proof (cases "existsSync ?p w3")
    case False
    with assms st show ?thesis
      unfolding backup_try_def by (auto simp: Let_def split: if_splits)
  next
    case True
    show ?thesis
    proof (cases "unlinkSync ?p w3")
      case (Inl x)
      with True assms st show ?thesis
        unfolding backup_try_def unlinkSync_def
        by (auto simp: Let_def split: if_splits option.splits)
    next
      case (Inr w4)
      then have "\<not> existsSync ?p w4"
        unfolding unlinkSync_def existsSync_def
        by (auto simp: delete_conv' split: if_splits option.splits)
      with True Inr assms st show ?thesis
        unfolding backup_try_def by (auto simp: Let_def split: if_splits)
    qed
  qed
qed

text \<open>
  C2. The claim is that the staging file is deleted before \<open>backupDatabase\<close> returns
  whatever the outcome, also when the producer fails. The source removes the file only
  after the storage loop; its \<open>catch\<close> block removes nothing. Here \<open>mysqldump\<close> exits with
  code 2: the write stream has created the staging file, the result carries the dump
  error, and the file is still there when \<open>backupDatabase\<close> returns.
\<close>

theorem C2_staging_file_left_after_dump_failure:
  "error (fst (backupDatabase ''db'' (ex_db ''mysql'' [ex_local ''/backups'' 10]) ex_world_dump_fails))
     = Some (DumpExited ''mysqldump'' 2 ''Access denied'') \<and>
   existsSync (''/tmp/backups'', ''db_2024-01-15_10-30-00-000.sql.gz'')
     (snd (backupDatabase ''db'' (ex_db ''mysql'' [ex_local ''/backups'' 10]) ex_world_dump_fails)) \<and>
   staging_path ''db'' (ex_db ''mysql'' [ex_local ''/backups'' 10]) (ex_local ''/backups'' 10)
     ex_world_dump_fails = (''/tmp/backups'', ''db_2024-01-15_10-30-00-000.sql.gz'')"
  by code_simp


section \<open>The top-level error of a result\<close>

text \<open>
  C3, as stated: \<open>error\<close> is set only when the run failed before any destination was
  attempted, and is absent when the producer succeeded and a destination was attempted.
  Here the dump succeeds, the one destination is attempted and fails: \<open>backupDatabase\<close>
  throws \<open>All storage destinations failed\<close> into its own \<open>catch\<close>, so \<open>error\<close> is set.
\<close>

theorem C3_error_set_after_attempts_counterexample:
  "fst (run_dump ''db'' (ex_db ''mysql'' [ex_local ''/backups'' 10])
         (''/tmp/backups'', ''db_2024-01-15_10-30-00-000.sql.gz'') ex_world_copy_fails) = Inr 100 \<and>
   calls (snd (backupDatabase ''db'' (ex_db ''mysql'' [ex_local ''/backups'' 10]) ex_world_copy_fails))
     = [CallSaveToLocal (''/tmp/backups'', ''db_2024-01-15_10-30-00-000.sql.gz'')
          (ex_local ''/backups'' 10)] \<and>
   error (fst (backupDatabase ''db'' (ex_db ''mysql'' [ex_local ''/backups'' 10]) ex_world_copy_fails))
     = Some (AllStorageFailed 1)"
  by code_simp

text \<open>
  C3, amended. \<open>error\<close> is set exactly when \<open>success\<close> is false. When the dump
  succeeded, the loop over the destinations has run and the staging file is then removed:
  if that removal throws, \<open>error\<close> is the error of the removal, whatever the destinations
  did; if it does not throw, \<open>error\<close> is \<open>All storage destinations failed\<close> with the
  number of destinations when no destination succeeded, and absent otherwise. When
  \<open>error\<close> is absent, the result lists the successes and the failures of the loop.
\<close>

theorem C3_error_iff_not_success:
  assumes "ensure_tempDir w = Inr w1"
    and "storage config = s0 # rest"
    and "run_dump name config (staging_path name config s0 w1) w1 = (Inr sz, w2)"
    and "store_all (staging_path name config s0 w1) (storage config) ([], [], w2) = (oks, errs, w3)"
  shows "error (fst (backupDatabase name config w)) =
           (case (if existsSync (staging_path name config s0 w1) w3
                  then unlinkSync (staging_path name config s0 w1) w3 else Inr w3) of
              Inl e \<Rightarrow> Some e
            | Inr w4 \<Rightarrow>
                if oks = [] then Some (AllStorageFailed (length (storage config))) else None)
         \<and> (error (fst (backupDatabase name config w)) = None \<longrightarrow>
               oks \<noteq> [] \<and> storages (fst (backupDatabase name config w)) = oks
               \<and> storageErrors (fst (backupDatabase name config w)) = errs)
         \<and> (error (fst (backupDatabase name' config' v)) = None)
             = success (fst (backupDatabase name' config' v))"
proof -
  let ?p = "staging_path name config s0 w1"
  let ?c = "if existsSync ?p w3 then unlinkSync ?p w3 else Inr w3"
  have len: "length oks + length errs = length (storage config)"
    using store_all_length [OF assms(4)] by simp
  have bt: "backup_try name config w =
      (case ?c of
         Inl e \<Rightarrow> (Inl e, w3)
       | Inr w4 \<Rightarrow>
           if length oks > 0 then
             (Inr \<lparr>rname = name, success = True, storages = oks,
                   storageErrors = errs, rsize = Some sz, error = None\<rparr>, w4)
           else (Inl (AllStorageFailed (length errs)), w4))"
    using assms unfolding backup_try_def by (simp add: Let_def)
  have part: "error (fst (backupDatabase name config w)) =
           (case ?c of
              Inl e \<Rightarrow> Some e
            | Inr w4 \<Rightarrow>
                if oks = [] then Some (AllStorageFailed (length (storage config))) else None)
         \<and> (error (fst (backupDatabase name config w)) = None \<longrightarrow>
               oks \<noteq> [] \<and> storages (fst (backupDatabase name config w)) = oks
               \<and> storageErrors (fst (backupDatabase name config w)) = errs)"
  proof (cases ?c)
    case (Inl e)
    then show ?thesis unfolding backupDatabase_def bt by simp
  next
    case (Inr w4)
    then show ?thesis using len unfolding backupDatabase_def bt by auto
  qed
  have iff: "(error (fst (backupDatabase name' config' v)) = None)
             = success (fst (backupDatabase name' config' v))"
    unfolding backupDatabase_def backup_try_def
    by (auto simp: Let_def split: sum.splits prod.splits list.splits if_splits)
  from part iff show ?thesis by simp
qed

theorem C3_error_iff_not_success_witness:
  "error (fst (backupDatabase ''db'' (ex_db ''mysql'' [ex_local ''/backups'' 10]) ex_world_copy_fails))
     = Some (AllStorageFailed 1) \<and>
   \<not> success (fst (backupDatabase ''db'' (ex_db ''mysql'' [ex_local ''/backups'' 10]) ex_world_copy_fails)) \<and>
   error (fst (backupDatabase ''db'' (ex_db ''mysql'' [ex_local ''/backups'' 10]) ex_world_cleanup_fails))
     = Some (Fault (Unlink (''/tmp/backups'', ''db_2024-01-15_10-30-00-000.sql.gz'')) ''EBUSY'') \<and>
   error (fst (backupDatabase ''db'' (ex_db ''mysql'' [ex_local ''/backups'' 10]) ex_world)) = None \<and>
   storages (fst (backupDatabase ''db'' (ex_db ''mysql'' [ex_local ''/backups'' 10]) ex_world))
     = [\<lparr>s_type = ''local'', s_path = ''/backups/db_2024-01-15_10-30-00-000.sql.gz'',
         s_success = True\<rparr>] \<and>
   storageErrors (fst (backupDatabase ''db'' (ex_db ''mysql'' [ex_local ''/backups'' 10]) ex_world)) = []"
proof -
  let ?cfg = "ex_db ''mysql'' [ex_local ''/backups'' 10]"
  have h2: "storage ?cfg = ex_local ''/backups'' 10 # []"
    by (simp add: ex_db_def)
  have n: "length (storage ?cfg) = 1" by (simp add: ex_db_def)
  have copy: "error (fst (backupDatabase ''db'' ?cfg ex_world_copy_fails)) = Some (AllStorageFailed 1)
      \<and> \<not> success (fst (backupDatabase ''db'' ?cfg ex_world_copy_fails))"
  proof -
    let ?w1 = "projr (ensure_tempDir ex_world_copy_fails)"
    let ?p = "staging_path ''db'' ?cfg (ex_local ''/backups'' 10) ?w1"
    let ?d = "run_dump ''db'' ?cfg ?p ?w1"
    let ?s = "store_all ?p (storage ?cfg) ([], [], snd ?d)"
    let ?c = "if existsSync ?p (snd (snd ?s)) then unlinkSync ?p (snd (snd ?s)) else Inr (snd (snd ?s))"
    have h1: "ensure_tempDir ex_world_copy_fails = Inr ?w1"
      by (rule sum_Inr) code_simp
    have "\<not> isl (fst ?d)" by code_simp
    then have h3: "?d = (Inr (projr (fst ?d)), snd ?d)" by (rule pair_Inr)
    have h4: "?s = (fst ?s, fst (snd ?s), snd (snd ?s))" by (rule triple_collapse)
    have "\<not> isl ?c" by code_simp
    then obtain w4 where h5: "?c = Inr w4" by (cases ?c) simp_all
    have oks: "fst ?s = []" by code_simp
    note t = C3_error_iff_not_success [OF h1 h2 h3 h4, of "''db''" ?cfg ex_world_copy_fails]
    have "error (fst (backupDatabase ''db'' ?cfg ex_world_copy_fails)) = Some (AllStorageFailed 1)"
      using t unfolding h5 oks n by simp
    with t show ?thesis by simp
  qed
  have cleanup: "error (fst (backupDatabase ''db'' ?cfg ex_world_cleanup_fails))
      = Some (Fault (Unlink (''/tmp/backups'', ''db_2024-01-15_10-30-00-000.sql.gz'')) ''EBUSY'')"
  proof -
    let ?w1 = "projr (ensure_tempDir ex_world_cleanup_fails)"
    let ?p = "staging_path ''db'' ?cfg (ex_local ''/backups'' 10) ?w1"
    let ?d = "run_dump ''db'' ?cfg ?p ?w1"
    let ?s = "store_all ?p (storage ?cfg) ([], [], snd ?d)"
    let ?c = "if existsSync ?p (snd (snd ?s)) then unlinkSync ?p (snd (snd ?s)) else Inr (snd (snd ?s))"
    have h1: "ensure_tempDir ex_world_cleanup_fails = Inr ?w1"
      by (rule sum_Inr) code_simp
    have "\<not> isl (fst ?d)" by code_simp
    then have h3: "?d = (Inr (projr (fst ?d)), snd ?d)" by (rule pair_Inr)
    have h4: "?s = (fst ?s, fst (snd ?s), snd (snd ?s))" by (rule triple_collapse)
    have i: "isl ?c" by code_simp
    have "projl ?c = Fault (Unlink (''/tmp/backups'', ''db_2024-01-15_10-30-00-000.sql.gz'')) ''EBUSY''"
      by code_simp
    with i have h5: "?c = Inl (Fault (Unlink (''/tmp/backups'', ''db_2024-01-15_10-30-00-000.sql.gz'')) ''EBUSY'')"
      by (cases ?c) simp_all
    note t = C3_error_iff_not_success [OF h1 h2 h3 h4, of "''db''" ?cfg ex_world_cleanup_fails]
    show ?thesis
      using t unfolding h5 by simp
  qed
  have ok: "error (fst (backupDatabase ''db'' ?cfg ex_world)) = None
      \<and> storages (fst (backupDatabase ''db'' ?cfg ex_world))
          = [\<lparr>s_type = ''local'', s_path = ''/backups/db_2024-01-15_10-30-00-000.sql.gz'',
              s_success = True\<rparr>]
      \<and> storageErrors (fst (backupDatabase ''db'' ?cfg ex_world)) = []"
  proof -
    let ?w1 = "projr (ensure_tempDir ex_world)"
    let ?p = "staging_path ''db'' ?cfg (ex_local ''/backups'' 10) ?w1"
    let ?d = "run_dump ''db'' ?cfg ?p ?w1"
    let ?s = "store_all ?p (storage ?cfg) ([], [], snd ?d)"
    let ?c = "if existsSync ?p (snd (snd ?s)) then unlinkSync ?p (snd (snd ?s)) else Inr (snd (snd ?s))"
    have h1: "ensure_tempDir ex_world = Inr ?w1"
      by (rule sum_Inr) code_simp
    have "\<not> isl (fst ?d)" by code_simp
    then have h3: "?d = (Inr (projr (fst ?d)), snd ?d)" by (rule pair_Inr)
    have h4: "?s = (fst ?s, fst (snd ?s), snd (snd ?s))" by (rule triple_collapse)
    have "\<not> isl ?c" by code_simp
    then obtain w4 where h5: "?c = Inr w4" by (cases ?c) simp_all
    have oks: "fst ?s = [\<lparr>s_type = ''local'', s_path = ''/backups/db_2024-01-15_10-30-00-000.sql.gz'',
              s_success = True\<rparr>]"
      by code_simp
    have errs: "fst (snd ?s) = []" by code_simp
    note t = C3_error_iff_not_success [OF h1 h2 h3 h4, of "''db''" ?cfg ex_world]
    have e: "error (fst (backupDatabase ''db'' ?cfg ex_world)) = None"
      using t unfolding h5 oks by simp
    with t show ?thesis unfolding oks errs by simp
  qed
  from copy cleanup ok show ?thesis by simp
qed

section \<open>The exit code\<close>

lemma rname_backupDatabase [simp]: "rname (fst (backupDatabase n c w)) = n"
  unfolding backupDatabase_def backup_try_def
  by (auto simp: Let_def split: prod.splits sum.splits list.splits if_splits)

lemma run_enabled_names: "map rname (fst (run_enabled ds w)) = map fst ds"
proof (induction ds arbitrary: w)
  case Nil
  then show ?case by simp
next
  case (Cons d ds)
  obtain r w' where b: "backupDatabase (fst d) (snd d) w = (r, w')"
    by (cases "backupDatabase (fst d) (snd d) w")
  then have "rname r = fst d"
    using rname_backupDatabase [of "fst d" "snd d" w] by simp
  with b Cons.IH [of w'] show ?case by (auto split: prod.splits)
qed

text \<open>
  C9, as stated: for every run the exit code is 1 if and only if some enabled database's
  result has \<open>success\<close> false. A run whose \<open>--database\<close> names match no entry of the
  configuration exits with 1 before any backup: no result exists, yet the code is 1.
\<close>

theorem C9_exit_code_without_failed_result_counterexample:
  "exit_code (fst (main [''other''] (Inr [(''db'', ex_db ''mysql'' [ex_local ''/backups'' 10])]) ex_world)) = 1 \<and>
   results (fst (main [''other''] (Inr [(''db'', ex_db ''mysql'' [ex_local ''/backups'' 10])]) ex_world)) = []"
  by code_simp

text \<open>
  C9, amended. For every run that gets to the backups (the configuration loaded, and the
  \<open>--database\<close> names, if any, select at least one entry) the exit code is 1 if and only
  if some result has \<open>success\<close> false, and 0 otherwise; the results are those of the
  selected entries that are enabled, in order, so a disabled entry has no result and no
  part in the code. A run that stops before (a configuration error, or names that select
  nothing) exits with 1 and has no result.
\<close>

theorem C9_exit_code:
  "(opt = [] \<or> filter (\<lambda>d. fst d \<in> set opt) dbs \<noteq> [] \<longrightarrow>
      exit_code (fst (main opt (Inr dbs) w)) =
        (if \<exists>r\<in>set (results (fst (main opt (Inr dbs) w))). \<not> success r then 1 else 0)
      \<and> map rname (results (fst (main opt (Inr dbs) w))) =
          map fst (filter (\<lambda>d. enabled (snd d))
            (if opt = [] then dbs else filter (\<lambda>d. fst d \<in> set opt) dbs)))
   \<and> (opt \<noteq> [] \<and> filter (\<lambda>d. fst d \<in> set opt) dbs = [] \<longrightarrow>
        exit_code (fst (main opt (Inr dbs) w)) = 1 \<and> results (fst (main opt (Inr dbs) w)) = [])
   \<and> exit_code (fst (main opt (Inl e) w)) = 1 \<and> results (fst (main opt (Inl e) w)) = []"
proof -
  have a: "exit_code (fst (main opt (Inl e) w)) = 1 \<and> results (fst (main opt (Inl e) w)) = []"
    by (simp add: main_def)
  have b: "opt \<noteq> [] \<and> filter (\<lambda>d. fst d \<in> set opt) dbs = [] \<longrightarrow>
        exit_code (fst (main opt (Inr dbs) w)) = 1 \<and> results (fst (main opt (Inr dbs) w)) = []"
    by (simp add: main_def)
  have c: "opt = [] \<or> filter (\<lambda>d. fst d \<in> set opt) dbs \<noteq> [] \<longrightarrow>
      exit_code (fst (main opt (Inr dbs) w)) =
        (if \<exists>r\<in>set (results (fst (main opt (Inr dbs) w))). \<not> success r then 1 else 0)
      \<and> map rname (results (fst (main opt (Inr dbs) w))) =
          map fst (filter (\<lambda>d. enabled (snd d))
            (if opt = [] then dbs else filter (\<lambda>d. fst d \<in> set opt) dbs))"
  proof
    assume sel: "opt = [] \<or> filter (\<lambda>d. fst d \<in> set opt) dbs \<noteq> []"
    let ?all = "if opt = [] then dbs else filter (\<lambda>d. fst d \<in> set opt) dbs"
    let ?en = "filter (\<lambda>d. enabled (snd d)) ?all"
    obtain rs w' where r: "run_enabled ?en w = (rs, w')"
      by (cases "run_enabled ?en w")
    have m: "fst (main opt (Inr dbs) w) =
       \<lparr>exit_code = (if 0 < length (filter (\<lambda>r. \<not> success r) rs) then 1 else 0), results = rs,
        skipped = map fst (filter (\<lambda>d. \<not> enabled (snd d)) ?all)\<rparr>"
      using sel r by (auto simp: main_def Let_def)
    have n: "map rname rs = map fst ?en"
      using run_enabled_names [of ?en w] r by simp
    show "exit_code (fst (main opt (Inr dbs) w)) =
        (if \<exists>r\<in>set (results (fst (main opt (Inr dbs) w))). \<not> success r then 1 else 0)
      \<and> map rname (results (fst (main opt (Inr dbs) w))) = map fst ?en"
      unfolding m using n by (auto simp: filter_empty_conv)
  qed
  from a b c show ?thesis by blast
qed

theorem C9_exit_code_witness:
  "exit_code (fst (main [] (Inr [(''a'', ex_db ''mysql'' [ex_local ''/backups'' 10]),
            (''b'', (ex_db ''mysql'' [ex_local ''/backups'' 10])\<lparr>enabled := False\<rparr>)]) ex_world_dump_fails)) = 1 \<and>
   map rname (results (fst (main [] (Inr [(''a'', ex_db ''mysql'' [ex_local ''/backups'' 10]),
            (''b'', (ex_db ''mysql'' [ex_local ''/backups'' 10])\<lparr>enabled := False\<rparr>)]) ex_world_dump_fails))) = [''a'']"
proof -
  let ?dbs = "[(''a'', ex_db ''mysql'' [ex_local ''/backups'' 10]),
            (''b'', (ex_db ''mysql'' [ex_local ''/backups'' 10])\<lparr>enabled := False\<rparr>)]"
  have f: "list_ex (\<lambda>r. \<not> success r) (results (fst (main [] (Inr ?dbs) ex_world_dump_fails)))"
    by code_simp
  from C9_exit_code [of "[]" ?dbs ex_world_dump_fails] f
  show ?thesis by (simp add: list_ex_iff ex_db_def)
qed


section \<open>The backup file name\<close>

lemma digit_mem: "k < 10 \<Longrightarrow> ''0123456789'' ! k \<in> set ''0123456789''"
  using nth_mem [of k "''0123456789''"] by simp

lemma show_nat_digits: "set (show_nat n) \<subseteq> set ''0123456789''"
proof (induction n rule: show_nat.induct)
  case (1 n)
  show ?case
  proof (cases "n < 10")
    case True
    have "show_nat n = [''0123456789'' ! n]"
      using True by (subst show_nat.simps) simp
    then show ?thesis using digit_mem [OF True] by simp
  next
    case False
    have m: "n mod 10 < 10" by simp
    have e: "show_nat n = show_nat (n div 10) @ [''0123456789'' ! (n mod 10)]"
      using False by (subst show_nat.simps) simp
    have "set (show_nat (n div 10)) \<subseteq> set ''0123456789''"
      using 1 False by simp
    then show ?thesis unfolding e using digit_mem [OF m] by simp
  qed
qed

lemma padStart_digits:
  assumes "c \<notin> set ''0123456789''"
  shows "c \<notin> set (padStart k (show_nat n))"
proof -
  have z: "CHR ''0'' \<in> set ''0123456789''" by simp
  from assms z have "c \<noteq> CHR ''0''" by blast
  moreover from assms show_nat_digits [of n] have "c \<notin> set (show_nat n)" by blast
  ultimately show ?thesis by (simp add: padStart_def)
qed

lemma iso_year_chars:
  assumes "c \<notin> set ''0123456789''" and "c \<noteq> CHR ''-''" and "c \<noteq> CHR ''+''"
  shows "c \<notin> set (iso_year y)"
proof -
  have p4: "c \<notin> set (padStart 4 (show_nat (nat y)))"
    using assms(1) by (rule padStart_digits)
  have p6: "c \<notin> set (padStart 6 (show_nat (nat \<bar>y\<bar>)))"
    using assms(1) by (rule padStart_digits)
  show ?thesis
  proof (cases "0 \<le> y \<and> y \<le> 9999")
    case True
    then have "iso_year y = padStart 4 (show_nat (nat y))" by (simp add: iso_year_def)
    with p4 show ?thesis by simp
  next
    case False
    then have "iso_year y = (if y < 0 then ''-'' else ''+'') @ padStart 6 (show_nat (nat \<bar>y\<bar>))"
      unfolding iso_year_def by (simp only: if_False)
    with p6 assms(2,3) show ?thesis by (cases "y < 0") simp_all
  qed
qed

lemma replace_colon_dot_id:
  "CHR '':'' \<notin> set s \<Longrightarrow> CHR ''.'' \<notin> set s \<Longrightarrow> replace_colon_dot s = s"
  by (induction s) (auto simp: replace_colon_dot_def)

lemma replace_colon_dot_append:
  "replace_colon_dot (a @ b) = replace_colon_dot a @ replace_colon_dot b"
  by (simp add: replace_colon_dot_def)

lemma replace_first_T_append:
  "CHR ''T'' \<notin> set a \<Longrightarrow> replace_first_T (a @ b) = a @ replace_first_T b"
  by (induction a) auto

lemma before_Z_append:
  "CHR ''Z'' \<notin> set a \<Longrightarrow> before_Z (a @ b) = a @ before_Z b"
  by (induction a) (auto simp: before_Z_def)

text \<open>
  What the source computes for every name, type and date: the time stamp keeps the
  milliseconds of \<open>toISOString\<close> as a fourth group, and the extension compares the type
  as configured with the two lower-case postgres names.
\<close>

lemma generateBackupFilename_format:
  "generateBackupFilename dbName dbType storageType d =
     dbName @ ''_'' @ iso_year (year d) @ ''-'' @ padStart 2 (show_nat (month d)) @ ''-'' @
     padStart 2 (show_nat (day d)) @ ''_'' @ padStart 2 (show_nat (hours d)) @ ''-'' @
     padStart 2 (show_nat (minutes d)) @ ''-'' @ padStart 2 (show_nat (seconds d)) @ ''-'' @
     padStart 3 (show_nat (milliseconds d)) @ ''.'' @
     (if dbType = ''postgres'' \<or> dbType = ''postgresql'' then ''dump'' else ''sql.gz'')"
proof -
  let ?y = "iso_year (year d)"
  let ?mo = "padStart 2 (show_nat (month d))"
  let ?da = "padStart 2 (show_nat (day d))"
  let ?h = "padStart 2 (show_nat (hours d))"
  let ?mi = "padStart 2 (show_nat (minutes d))"
  let ?s = "padStart 2 (show_nat (seconds d))"
  let ?ms = "padStart 3 (show_nat (milliseconds d))"
  have y: "CHR '':'' \<notin> set ?y" "CHR ''.'' \<notin> set ?y" "CHR ''T'' \<notin> set ?y" "CHR ''Z'' \<notin> set ?y"
    by (rule iso_year_chars; simp)+
  have dg: "CHR '':'' \<notin> set (padStart k (show_nat n))" "CHR ''.'' \<notin> set (padStart k (show_nat n))"
    "CHR ''T'' \<notin> set (padStart k (show_nat n))" "CHR ''Z'' \<notin> set (padStart k (show_nat n))" for k n
    by (rule padStart_digits; simp)+
  have r1: "replace_colon_dot (toISOString d) =
      ?y @ ''-'' @ ?mo @ ''-'' @ ?da @ ''T'' @ ?h @ ''-'' @ ?mi @ ''-'' @ ?s @ ''-'' @ ?ms @ ''Z''"
    unfolding toISOString_def replace_colon_dot_append
    by (simp add: replace_colon_dot_id y dg) (simp add: replace_colon_dot_def)
  have r2: "replace_first_T (?y @ ''-'' @ ?mo @ ''-'' @ ?da @ ''T'' @ ?h @ ''-'' @ ?mi @ ''-'' @ ?s @ ''-'' @ ?ms @ ''Z'')
      = ?y @ ''-'' @ ?mo @ ''-'' @ ?da @ ''_'' @ ?h @ ''-'' @ ?mi @ ''-'' @ ?s @ ''-'' @ ?ms @ ''Z''"
    using replace_first_T_append [of "?y @ ''-'' @ ?mo @ ''-'' @ ?da" "''T'' @ ?h @ ''-'' @ ?mi @ ''-'' @ ?s @ ''-'' @ ?ms @ ''Z''"]
    by (simp add: y dg)
  have r3: "before_Z (?y @ ''-'' @ ?mo @ ''-'' @ ?da @ ''_'' @ ?h @ ''-'' @ ?mi @ ''-'' @ ?s @ ''-'' @ ?ms @ ''Z'')
      = ?y @ ''-'' @ ?mo @ ''-'' @ ?da @ ''_'' @ ?h @ ''-'' @ ?mi @ ''-'' @ ?s @ ''-'' @ ?ms"
    using before_Z_append [of "?y @ ''-'' @ ?mo @ ''-'' @ ?da @ ''_'' @ ?h @ ''-'' @ ?mi @ ''-'' @ ?s @ ''-'' @ ?ms" "''Z''"]
    by (simp add: y dg before_Z_def)
  show ?thesis
    unfolding generateBackupFilename_def Let_def r1 r2 r3 by simp
qed

text \<open>
  C4. The claim is the documented name \<open>{name}_{YYYY-MM-DD}_{HH-MM-SS}.{ext}\<close>, with
  \<open>dump\<close> for every postgres-family type. At 2024-01-15T10:30:00.000Z the source names
  the backup of \<open>db\<close> with a fourth group \<open>-000\<close>, the milliseconds; and for the type
  \<open>Postgres\<close>, which the loader accepts and \<open>backupDatabase\<close> hands to \<open>pg_dump\<close>, the
  extension is \<open>sql.gz\<close>.
\<close>

theorem C4_filename_keeps_milliseconds:
  "generateBackupFilename ''db'' ''mysql'' ''local'' ex_date = ''db_2024-01-15_10-30-00-000.sql.gz'' \<and>
   generateBackupFilename ''db'' ''Postgres'' ''local'' ex_date = ''db_2024-01-15_10-30-00-000.sql.gz'' \<and>
   toLowerCase ''Postgres'' \<in> set validTypes \<and>
   run_dump ''db'' (ex_db ''Postgres'' [ex_local ''/backups'' 10]) (tempDir, ''f'') ex_world =
     backupPostgres ''db'' (tempDir, ''f'') ex_world"
proof -
  have a: "generateBackupFilename ''db'' ''mysql'' ''local'' ex_date = ''db_2024-01-15_10-30-00-000.sql.gz''"
    by code_simp
  have b: "generateBackupFilename ''db'' ''Postgres'' ''local'' ex_date = ''db_2024-01-15_10-30-00-000.sql.gz''"
    by code_simp
  have c: "toLowerCase ''Postgres'' = ''postgres''"
    by (simp add: toLowerCase_def lower_char_def)
  have d: "run_dump ''db'' (ex_db ''Postgres'' [ex_local ''/backups'' 10]) (tempDir, ''f'') ex_world =
     backupPostgres ''db'' (tempDir, ''f'') ex_world"
    by (simp add: run_dump_def ex_db_def c)
  from a b c d show ?thesis by (simp add: validTypes_def)
qed

section \<open>Disabled entries of the configuration\<close>

lemma get_field_update_same [simp]: "get_field (AList.update k v d) k = v"
  by (simp add: get_field_def update_conv')

lemma get_field_update_other [simp]: "k \<noteq> k' \<Longrightarrow> get_field (AList.update k v d) k' = get_field d k'"
  by (simp add: get_field_def update_conv')

lemma load_entry_disabled:
  "\<not> normalize_enabled (get_field d ''enabled'') \<Longrightarrow>
     load_entry name d = Inr (AList.update ''enabled'' (JBool False) d)"
  by (simp add: load_entry_def Let_def)

lemma load_entry_enabled_error:
  "normalize_enabled (get_field d ''enabled'') \<Longrightarrow>
   validateDatabaseConfig name (AList.update ''enabled'' (JBool True) d) = Inl e \<Longrightarrow>
     load_entry name d = Inl e"
  by (simp add: load_entry_def Let_def)

lemma load_entry_result:
  assumes "load_entry name d = Inr c"
  shows "get_field c ''enabled'' = JBool (normalize_enabled (get_field d ''enabled''))"
    and "normalize_enabled (get_field d ''enabled'') \<Longrightarrow>
           validateDatabaseConfig name (AList.update ''enabled'' (JBool True) d) = Inr ()"
proof -
  show "get_field c ''enabled'' = JBool (normalize_enabled (get_field d ''enabled''))"
  proof (cases "normalize_enabled (get_field d ''enabled'')")
    case False
    with assms load_entry_disabled [of d name] show ?thesis by auto
  next
    case True
    let ?c1 = "AList.update ''enabled'' (JBool True) d"
    from True assms obtain c3 ss' where
      "c = AList.update ''storage'' (JArr ss') c3" "get_field c3 ''enabled'' = JBool True"
      unfolding load_entry_def Let_def
      by (auto split: sum.splits jsval.splits if_splits)
    with True show ?thesis by simp
  qed
  show "normalize_enabled (get_field d ''enabled'') \<Longrightarrow>
           validateDatabaseConfig name (AList.update ''enabled'' (JBool True) d) = Inr ()"
    using assms unfolding load_entry_def Let_def
    by (auto split: sum.splits)
qed

lemma normalize_enabled_iff:
  "(\<not> normalize_enabled v) = (v \<noteq> JUndefined \<and> v \<noteq> JNull \<and> \<not> truthy v)"
  by (auto simp: normalize_enabled_def)

lemma load_entries_append:
  "load_entries (xs @ ys) =
     (case load_entries xs of
        Inl e \<Rightarrow> Inl e
      | Inr r \<Rightarrow> (case load_entries ys of Inl e \<Rightarrow> Inl e | Inr r' \<Rightarrow> Inr (r @ r')))"
  by (induction xs) (auto split: sum.splits jsval.splits)

lemma load_entries_length: "load_entries xs = Inr r \<Longrightarrow> length r = length xs"
  by (induction xs arbitrary: r) (auto split: sum.splits jsval.splits)

lemma load_entries_insert_disabled:
  assumes "\<not> normalize_enabled (get_field d ''enabled'')"
  shows "load_entries (ds1 @ (n, JObj d) # ds2) =
     (case load_entries (ds1 @ ds2) of
        Inl e \<Rightarrow> Inl e
      | Inr r \<Rightarrow> Inr (take (length ds1) r @ (n, JObj (AList.update ''enabled'' (JBool False) d))
                       # drop (length ds1) r))"
proof -
  have one: "load_entries ((n, JObj d) # ds2) =
      (case load_entries ds2 of Inl e \<Rightarrow> Inl e
       | Inr r \<Rightarrow> Inr ((n, JObj (AList.update ''enabled'' (JBool False) d)) # r))"
    using load_entry_disabled [OF assms, of n] by (auto split: sum.splits)
  show ?thesis
  proof (cases "load_entries ds1")
    case (Inl e)
    then show ?thesis by (simp add: load_entries_append)
  next
    case (Inr r1)
    from load_entries_length [OF Inr] have l: "length r1 = length ds1" .
    show ?thesis
      unfolding load_entries_append [of ds1 "(n, JObj d) # ds2"] load_entries_append [of ds1 ds2] one Inr
      using l by (auto split: sum.splits)
  qed
qed

lemma load_entries_all2:
  "load_entries ds = Inr ds' \<Longrightarrow>
     list_all2 (\<lambda>x y. \<exists>d c. snd x = JObj d \<and> y = (fst x, JObj c) \<and> load_entry (fst x) d = Inr c) ds ds'"
proof (induction ds arbitrary: ds')
  case Nil
  then show ?case by simp
next
  case (Cons x ds)
  show ?case
  proof (cases "snd x")
    case (JObj d)
    with Cons.prems obtain c cs where
      c: "load_entry (fst x) d = Inr c" "load_entries ds = Inr cs" "ds' = (fst x, JObj c) # cs"
      by (auto split: sum.splits)
    from Cons.IH [OF c(2)] c JObj show ?thesis by simp
  next
    case (JArr xs)
    have "load_entry (fst x) [] = Inl (MissingFields (fst x) [''database'', ''type'', ''host'', ''username''])"
      by (simp add: load_entry_def Let_def normalize_enabled_def validateDatabaseConfig_def get_field_def)
    with Cons.prems JArr show ?thesis by simp
  qed (use Cons.prems in \<open>simp_all\<close>)
qed


text \<open>
  C10. While the configuration is loaded, an entry ends up disabled only if its
  \<open>enabled\<close> value coerces to false: what the loop leaves in \<open>enabled\<close> is \<open>true\<close> for
  \<open>undefined\<close> and \<open>null\<close> and \<open>Boolean(enabled)\<close> otherwise, for every entry and every
  value. The string \<open>false\<close> is not empty and coerces to true. An entry whose value
  coerces to true is enabled: it is validated, an error of the validation is the error
  of the loop, and it loads only if the validation passes. An entry that ends up
  disabled is not validated: whatever its other fields are, the loop keeps it with
  \<open>enabled\<close> set to the boolean \<open>false\<close>. For the whole configuration: when \<open>loadConfig\<close>
  returns, every entry it returns is the entry it was given, treated in this way; and
  putting a disabled entry with any fields anywhere among the databases changes neither
  whether \<open>loadConfig\<close> throws nor what it throws, and a configuration of one such
  entry loads.
\<close>

theorem C10_disabled_only_when_falsy:
  "(load_entry name d = Inr c \<longrightarrow>
      get_field c ''enabled'' = JBool (normalize_enabled (get_field d ''enabled''))
      \<and> (get_field c ''enabled'' = JBool False \<longrightarrow> \<not> truthy (get_field d ''enabled''))
      \<and> (truthy (get_field d ''enabled'') \<longrightarrow> get_field c ''enabled'' = JBool True))
   \<and> (\<not> normalize_enabled v) = (v \<noteq> JUndefined \<and> v \<noteq> JNull \<and> \<not> truthy v)
   \<and> truthy (JStr ''false'') \<and> normalize_enabled (JStr ''false'')
   \<and> (truthy (get_field d ''enabled'') \<longrightarrow>
        (\<forall>e. validateDatabaseConfig name (AList.update ''enabled'' (JBool True) d) = Inl e \<longrightarrow>
               load_entry name d = Inl e)
        \<and> (\<forall>c'. load_entry name d = Inr c' \<longrightarrow>
               validateDatabaseConfig name (AList.update ''enabled'' (JBool True) d) = Inr ()))
   \<and> (\<not> normalize_enabled (get_field d ''enabled'') \<longrightarrow>
        load_entry name d = Inr (AList.update ''enabled'' (JBool False) d)
        \<and> loadConfig valid_url \<lparr>databases = Some [(name, JObj d)], webhook = JUndefined\<rparr> =
            Inr \<lparr>databases = Some [(name, JObj (AList.update ''enabled'' (JBool False) d))],
                 webhook = JUndefined\<rparr>
        \<and> load_entries (ds1 @ (name, JObj d) # ds2) =
            (case load_entries (ds1 @ ds2) of
               Inl e \<Rightarrow> Inl e
             | Inr r \<Rightarrow> Inr (take (length ds1) r
                              @ (name, JObj (AList.update ''enabled'' (JBool False) d))
                              # drop (length ds1) r))
        \<and> (ds1 @ ds2 \<noteq> [] \<longrightarrow>
             (\<forall>e. (loadConfig valid_url (cfg\<lparr>databases := Some (ds1 @ (name, JObj d) # ds2)\<rparr>) = Inl e)
                = (loadConfig valid_url (cfg\<lparr>databases := Some (ds1 @ ds2)\<rparr>) = Inl e))))
   \<and> (loadConfig valid_url cfg = Inr cfg' \<longrightarrow>
        (\<exists>ds ds'. databases cfg = Some ds \<and> databases cfg' = Some ds'
           \<and> list_all2
                (\<lambda>x y. \<exists>d0 c0. snd x = JObj d0 \<and> y = (fst x, JObj c0)
                   \<and> load_entry (fst x) d0 = Inr c0
                   \<and> get_field c0 ''enabled'' = JBool (normalize_enabled (get_field d0 ''enabled'')))
                ds ds'))"
proof -
  have a: "load_entry name d = Inr c \<longrightarrow>
      get_field c ''enabled'' = JBool (normalize_enabled (get_field d ''enabled''))
      \<and> (get_field c ''enabled'' = JBool False \<longrightarrow> \<not> truthy (get_field d ''enabled''))
      \<and> (truthy (get_field d ''enabled'') \<longrightarrow> get_field c ''enabled'' = JBool True)"
    using load_entry_result(1) [of name d c] by (auto simp: normalize_enabled_def)
  have b: "(\<not> normalize_enabled v) = (v \<noteq> JUndefined \<and> v \<noteq> JNull \<and> \<not> truthy v)"
    by (rule normalize_enabled_iff)
  have s: "truthy (JStr ''false'') \<and> normalize_enabled (JStr ''false'')"
    by (simp add: normalize_enabled_def)
  have t: "truthy (get_field d ''enabled'') \<Longrightarrow> normalize_enabled (get_field d ''enabled'')"
    by (auto simp: normalize_enabled_def)
  have e1: "truthy (get_field d ''enabled'') \<longrightarrow>
        (\<forall>e. validateDatabaseConfig name (AList.update ''enabled'' (JBool True) d) = Inl e \<longrightarrow>
               load_entry name d = Inl e)
        \<and> (\<forall>c'. load_entry name d = Inr c' \<longrightarrow>
               validateDatabaseConfig name (AList.update ''enabled'' (JBool True) d) = Inr ())"
    using t load_entry_enabled_error [of d name] load_entry_result(2) [of name d] by blast
  have d1: "\<not> normalize_enabled (get_field d ''enabled'') \<Longrightarrow>
      load_entry name d = Inr (AList.update ''enabled'' (JBool False) d)"
    by (rule load_entry_disabled)
  have d2: "\<not> normalize_enabled (get_field d ''enabled'') \<Longrightarrow>
      loadConfig valid_url \<lparr>databases = Some [(name, JObj d)], webhook = JUndefined\<rparr> =
            Inr \<lparr>databases = Some [(name, JObj (AList.update ''enabled'' (JBool False) d))],
                 webhook = JUndefined\<rparr>"
    using d1 by (simp add: loadConfig_def)
  have d3: "\<not> normalize_enabled (get_field d ''enabled'') \<Longrightarrow>
      load_entries (ds1 @ (name, JObj d) # ds2) =
            (case load_entries (ds1 @ ds2) of
               Inl e \<Rightarrow> Inl e
             | Inr r \<Rightarrow> Inr (take (length ds1) r
                              @ (name, JObj (AList.update ''enabled'' (JBool False) d))
                              # drop (length ds1) r))"
    by (rule load_entries_insert_disabled)
  have d4: "\<not> normalize_enabled (get_field d ''enabled'') \<Longrightarrow> ds1 @ ds2 \<noteq> [] \<Longrightarrow>
      (loadConfig valid_url (cfg\<lparr>databases := Some (ds1 @ (name, JObj d) # ds2)\<rparr>) = Inl e)
        = (loadConfig valid_url (cfg\<lparr>databases := Some (ds1 @ ds2)\<rparr>) = Inl e)" for e
    using d3 unfolding loadConfig_def
    by (cases "load_entries (ds1 @ ds2)") (auto split: jsval.splits)
  have f: "loadConfig valid_url cfg = Inr cfg' \<longrightarrow>
        (\<exists>ds ds'. databases cfg = Some ds \<and> databases cfg' = Some ds'
           \<and> list_all2
                (\<lambda>x y. \<exists>d0 c0. snd x = JObj d0 \<and> y = (fst x, JObj c0)
                   \<and> load_entry (fst x) d0 = Inr c0
                   \<and> get_field c0 ''enabled'' = JBool (normalize_enabled (get_field d0 ''enabled'')))
                ds ds')"
  proof
    assume l: "loadConfig valid_url cfg = Inr cfg'"
    then obtain ds ds' where
      ds: "databases cfg = Some ds" "load_entries ds = Inr ds'" "databases cfg' = Some ds'"
      unfolding loadConfig_def
      by (auto split: option.splits sum.splits if_splits jsval.splits)
    have "list_all2
                (\<lambda>x y. \<exists>d0 c0. snd x = JObj d0 \<and> y = (fst x, JObj c0)
                   \<and> load_entry (fst x) d0 = Inr c0
                   \<and> get_field c0 ''enabled'' = JBool (normalize_enabled (get_field d0 ''enabled'')))
                ds ds'"
      using load_entries_all2 [OF ds(2)]
    proof (rule list_all2_mono)
      fix x :: "string \<times> jsval" and y :: "string \<times> jsval"
      assume "\<exists>d c. snd x = JObj d \<and> y = (fst x, JObj c) \<and> load_entry (fst x) d = Inr c"
      then obtain d0 c0 where
        x: "snd x = JObj d0" "y = (fst x, JObj c0)" "load_entry (fst x) d0 = Inr c0"
        by blast
      have g: "get_field c0 ''enabled'' = JBool (normalize_enabled (get_field d0 ''enabled''))"
        using x(3) by (rule load_entry_result(1))
      from x g show "\<exists>d0 c0. snd x = JObj d0 \<and> y = (fst x, JObj c0)
                   \<and> load_entry (fst x) d0 = Inr c0
                   \<and> get_field c0 ''enabled'' = JBool (normalize_enabled (get_field d0 ''enabled''))"
        by blast
    qed
    with ds show "\<exists>ds ds'. databases cfg = Some ds \<and> databases cfg' = Some ds'
           \<and> list_all2
                (\<lambda>x y. \<exists>d0 c0. snd x = JObj d0 \<and> y = (fst x, JObj c0)
                   \<and> load_entry (fst x) d0 = Inr c0
                   \<and> get_field c0 ''enabled'' = JBool (normalize_enabled (get_field d0 ''enabled'')))
                ds ds'"
      by blast
  qed
  from a b s e1 d1 d2 d3 d4 f show ?thesis by blast
qed


theorem C10_disabled_only_when_falsy_witness:
  "get_field ex_entry_false ''enabled'' = JStr ''false''
   \<and> load_entry ''db'' ex_entry_false = Inr ex_entry_false_loaded
   \<and> get_field ex_entry_false_loaded ''enabled'' = JBool True
   \<and> validateDatabaseConfig ''db'' (AList.update ''enabled'' (JBool True) ex_entry_false) = Inr ()
   \<and> load_entry ''db'' [(''enabled'', JStr ''false'')] =
       Inl (MissingFields ''db'' [''database'', ''type'', ''host'', ''username''])
   \<and> \<not> truthy (get_field ex_entry_off ''enabled'')
   \<and> load_entry ''old'' ex_entry_off = Inr [(''enabled'', JBool False), (''type'', JStr ''oracle'')]
   \<and> load_entries [(''db'', JObj ex_entry_false), (''old'', JObj ex_entry_off)] =
       Inr [(''db'', JObj ex_entry_false_loaded),
            (''old'', JObj [(''enabled'', JBool False), (''type'', JStr ''oracle'')])]
   \<and> loadConfig (\<lambda>u. True)
         \<lparr>databases = Some [(''db'', JObj ex_entry_false), (''old'', JObj ex_entry_off)],
          webhook = JUndefined\<rparr> =
       Inr \<lparr>databases = Some [(''db'', JObj ex_entry_false_loaded),
                               (''old'', JObj [(''enabled'', JBool False), (''type'', JStr ''oracle'')])],
            webhook = JUndefined\<rparr>
   \<and> list_all2
         (\<lambda>x y. \<exists>d0 c0. snd x = JObj d0 \<and> y = (fst x, JObj c0)
            \<and> load_entry (fst x) d0 = Inr c0
            \<and> get_field c0 ''enabled'' = JBool (normalize_enabled (get_field d0 ''enabled'')))
         [(''db'', JObj ex_entry_false), (''old'', JObj ex_entry_off)]
         [(''db'', JObj ex_entry_false_loaded),
          (''old'', JObj [(''enabled'', JBool False), (''type'', JStr ''oracle'')])]"
proof -
  let ?cfg = "\<lparr>databases = Some [(''db'', JObj ex_entry_false), (''old'', JObj ex_entry_off)],
               webhook = JUndefined\<rparr>"
  let ?off = "[(''enabled'', JBool False), (''type'', JStr ''oracle'')]"
  let ?cfg' = "\<lparr>databases = Some [(''db'', JObj ex_entry_false_loaded), (''old'', JObj ?off)],
                webhook = JUndefined\<rparr>"
  have g: "get_field ex_entry_false ''enabled'' = JStr ''false''"
    by code_simp
  have l: "load_entry ''db'' ex_entry_false = Inr ex_entry_false_loaded"
    by code_simp
  have v: "validateDatabaseConfig ''db'' (AList.update ''enabled'' (JBool True) [(''enabled'', JStr ''false'')]) =
     Inl (MissingFields ''db'' [''database'', ''type'', ''host'', ''username''])"
    by code_simp
  have g2: "get_field [(''enabled'', JStr ''false'')] ''enabled'' = JStr ''false''"
    by code_simp
  have n: "\<not> normalize_enabled (get_field ex_entry_off ''enabled'')"
    by code_simp
  have u: "AList.update ''enabled'' (JBool False) ex_entry_off = ?off"
    by code_simp
  have le: "load_entries ([(''db'', JObj ex_entry_false)] @ []) = Inr [(''db'', JObj ex_entry_false_loaded)]"
    by code_simp
  have lc: "loadConfig (\<lambda>u. True) ?cfg = Inr ?cfg'"
    by code_simp
  note valid = C10_disabled_only_when_falsy
    [of "''db''" ex_entry_false ex_entry_false_loaded "JStr ''false''" "\<lambda>u. True" "[]" "[]" ?cfg ?cfg]
  note invalid = C10_disabled_only_when_falsy
    [of "''db''" "[(''enabled'', JStr ''false'')]" "[]" "JNum 0" "\<lambda>u. True" "[]" "[]" ?cfg ?cfg]
  note off = C10_disabled_only_when_falsy
    [of "''old''" ex_entry_off ?off "JNum 0" "\<lambda>u. True" "[(''db'', JObj ex_entry_false)]" "[]" ?cfg ?cfg']
  have 1: "get_field ex_entry_false_loaded ''enabled'' = JBool True"
    using valid l g by simp
  have 2: "validateDatabaseConfig ''db'' (AList.update ''enabled'' (JBool True) ex_entry_false) = Inr ()"
    using valid l g by simp
  have 3: "load_entry ''db'' [(''enabled'', JStr ''false'')] =
       Inl (MissingFields ''db'' [''database'', ''type'', ''host'', ''username''])"
    using invalid v g2 by simp
  have 5: "load_entry ''old'' ex_entry_off = Inr ?off"
    using off n u by simp
  have g3: "get_field ?off ''enabled'' = JBool False"
    by code_simp
  have 4: "\<not> truthy (get_field ex_entry_off ''enabled'')"
    using off 5 g3 by simp
  have 6: "load_entries [(''db'', JObj ex_entry_false), (''old'', JObj ex_entry_off)] =
       Inr [(''db'', JObj ex_entry_false_loaded), (''old'', JObj ?off)]"
    using off n u le by simp
  have 7: "list_all2
         (\<lambda>x y. \<exists>d0 c0. snd x = JObj d0 \<and> y = (fst x, JObj c0)
            \<and> load_entry (fst x) d0 = Inr c0
            \<and> get_field c0 ''enabled'' = JBool (normalize_enabled (get_field d0 ''enabled'')))
         [(''db'', JObj ex_entry_false), (''old'', JObj ex_entry_off)]
         [(''db'', JObj ex_entry_false_loaded), (''old'', JObj ?off)]"
    using off lc by simp
  from g l 1 2 3 4 5 6 lc 7 show ?thesis by blast
qed


section \<open>The storage loop\<close>

lemma unlinkSync_calls: "unlinkSync p w = Inr w' \<Longrightarrow> calls w' = calls w"
  by (auto simp: unlinkSync_def split: option.splits if_splits)

lemma unlink_each_calls: "unlink_each fs w = (r, w') \<Longrightarrow> calls w' = calls w"
proof (induction fs arbitrary: w)
  case Nil
  then show ?case by simp
next
  case (Cons f fs)
  show ?case
  proof (cases "unlinkSync (bf_path f) w")
    case (Inl e)
    with Cons.prems show ?thesis by simp
  next
    case (Inr w1)
    with Cons.prems have "unlink_each fs w1 = (r, w')" by simp
    from Cons.IH [OF this] unlinkSync_calls [OF Inr] show ?thesis by simp
  qed
qed

lemma rotateLocalBackups_calls: "rotateLocalBackups d k w = (r, w') \<Longrightarrow> calls w' = calls w"
  unfolding rotateLocalBackups_def Let_def
  by (auto split: sum.splits if_splits dest: unlink_each_calls)

lemma local_copy_calls: "local_copy p sc w = (r, w') \<Longrightarrow> calls w' = calls w"
  unfolding local_copy_def Let_def mkdirSync_def copyFileSync_def
  by (auto split: sum.splits if_splits option.splits)

lemma local_copy_dest:
  "local_copy p sc w = (Inr dest, w') \<Longrightarrow> dest = path_join (spath sc) (snd p)"
  unfolding local_copy_def Let_def
  by (auto split: sum.splits if_splits)

lemma saveToLocal_calls:
  "saveToLocal p sc w = (r, w') \<Longrightarrow> calls w' = calls w @ [CallSaveToLocal p sc]"
  unfolding saveToLocal_def
  by (auto split: prod.splits sum.splits dest!: local_copy_calls rotateLocalBackups_calls)

lemma saveToLocal_location:
  "saveToLocal p sc w = (Inr loc, w') \<Longrightarrow> loc = path_str (path_join (spath sc) (snd p))"
  unfolding saveToLocal_def
  by (auto split: prod.splits sum.splits dest!: local_copy_dest)

lemma delete_each_calls: "delete_each b fs w = (r, w') \<Longrightarrow> calls w' = calls w"
proof (induction fs arbitrary: w)
  case Nil
  then show ?case by simp
next
  case (Cons f fs)
  show ?case
  proof (cases "faults w (S3Delete b (fst f))")
    case (Some m)
    with Cons.prems show ?thesis by simp
  next
    case None
    with Cons.prems
    have "delete_each b fs (w\<lparr>objects := AList.delete (b, fst f) (objects w)\<rparr>) = (r, w')" by simp
    from Cons.IH [OF this] show ?thesis by simp
  qed
qed

lemma rotateS3Backups_calls: "rotateS3Backups b pre k w = (r, w') \<Longrightarrow> calls w' = calls w"
  unfolding rotateS3Backups_def Let_def
  by (auto split: option.splits if_splits dest: delete_each_calls)

lemma s3_upload_calls: "s3_upload p sc w = (r, w') \<Longrightarrow> calls w' = calls w"
  unfolding s3_upload_def Let_def
  by (auto split: sum.splits option.splits)

lemma s3_upload_key: "s3_upload p sc w = (Inr k, w') \<Longrightarrow> k = sprefix sc @ snd p"
  unfolding s3_upload_def Let_def
  by (auto split: sum.splits option.splits)

lemma saveToS3_calls:
  "saveToS3 p sc w = (r, w') \<Longrightarrow> calls w' = calls w @ [CallSaveToS3 p sc]"
  unfolding saveToS3_def Let_def
  by (auto split: prod.splits sum.splits if_splits dest!: s3_upload_calls rotateS3Backups_calls)

lemma saveToS3_location:
  "saveToS3 p sc w = (Inr loc, w') \<Longrightarrow> loc = ''s3://'' @ bucket sc @ ''/'' @ sprefix sc @ snd p"
  unfolding saveToS3_def Let_def
  by (auto split: prod.splits sum.splits if_splits dest!: s3_upload_key)

text \<open>One turn of the loop: the call it makes and the outcome it appends.\<close>

lemma store_one_step:
  assumes "store_one p sc (oks0, errs0, w) = (oks, errs, w')"
  shows "calls w' = calls w @ (if has_backend sc then [backend_call p sc] else [])"
    and "(oks = oks0 @ [\<lparr>s_type = stype sc, s_path = store_location p sc, s_success = True\<rparr>]
           \<and> errs = errs0)
         \<or> (oks = oks0 \<and> (\<exists>e. errs = errs0 @ [\<lparr>e_type = stype sc, e_error = e, e_success = False\<rparr>]))"
proof -
  show "calls w' = calls w @ (if has_backend sc then [backend_call p sc] else [])"
    using assms unfolding store_one_def has_backend_def backend_call_def
    by (auto split: prod.splits sum.splits if_splits dest: saveToLocal_calls saveToS3_calls)
  show "(oks = oks0 @ [\<lparr>s_type = stype sc, s_path = store_location p sc, s_success = True\<rparr>]
           \<and> errs = errs0)
         \<or> (oks = oks0 \<and> (\<exists>e. errs = errs0 @ [\<lparr>e_type = stype sc, e_error = e, e_success = False\<rparr>]))"
    using assms unfolding store_one_def store_location_def
    by (auto split: prod.splits sum.splits if_splits dest: saveToLocal_location saveToS3_location)
qed

lemma store_all_calls:
  "store_all p scs (oks0, errs0, w) = (oks, errs, w') \<Longrightarrow>
     calls w' = calls w @ map (backend_call p) (filter has_backend scs)"
proof (induction scs arbitrary: oks0 errs0 w)
  case Nil
  then show ?case by simp
next
  case (Cons sc scs)
  obtain o1 e1 w1 where s1: "store_one p sc (oks0, errs0, w) = (o1, e1, w1)"
    by (cases "store_one p sc (oks0, errs0, w)") auto
  with Cons.prems have "store_all p scs (o1, e1, w1) = (oks, errs, w')" by simp
  from Cons.IH [OF this] store_one_step(1) [OF s1] show ?case by simp
qed

text \<open>
  The two lists are the configured entries split by a list of flags, one flag per
  entry in order: the successes are the flagged entries, the failures the others.
\<close>

lemma store_all_flags:
  "store_all p scs (oks0, errs0, w) = (oks, errs, w') \<Longrightarrow>
     \<exists>flags. length flags = length scs
       \<and> oks = oks0 @ map (\<lambda>sc. \<lparr>s_type = stype sc, s_path = store_location p sc, s_success = True\<rparr>)
                      (map fst (filter snd (zip scs flags)))
       \<and> map e_type errs = map e_type errs0 @
            map stype (map fst (filter (\<lambda>x. \<not> snd x) (zip scs flags)))"
proof (induction scs arbitrary: oks0 errs0 w)
  case Nil
  then show ?case by simp
next
  case (Cons sc scs)
  let ?f = "\<lambda>sc. \<lparr>s_type = stype sc, s_path = store_location p sc, s_success = True\<rparr>"
  obtain o1 e1 w1 where s1: "store_one p sc (oks0, errs0, w) = (o1, e1, w1)"
    by (cases "store_one p sc (oks0, errs0, w)") auto
  with Cons.prems have "store_all p scs (o1, e1, w1) = (oks, errs, w')" by simp
  from Cons.IH [OF this] obtain flags where
    fl: "length flags = length scs"
    "oks = o1 @ map ?f (map fst (filter snd (zip scs flags)))"
    "map e_type errs = map e_type e1 @ map stype (map fst (filter (\<lambda>x. \<not> snd x) (zip scs flags)))"
    by blast
  from store_one_step(2) [OF s1] show ?case
  proof
    assume "o1 = oks0 @ [?f sc] \<and> e1 = errs0"
    with fl have "length (True # flags) = length (sc # scs)
       \<and> oks = oks0 @ map ?f (map fst (filter snd (zip (sc # scs) (True # flags))))
       \<and> map e_type errs = map e_type errs0 @
            map stype (map fst (filter (\<lambda>x. \<not> snd x) (zip (sc # scs) (True # flags))))"
      by simp
    then show ?thesis by blast
  next
    assume "o1 = oks0 \<and> (\<exists>e. e1 = errs0 @ [\<lparr>e_type = stype sc, e_error = e, e_success = False\<rparr>])"
    with fl have "length (False # flags) = length (sc # scs)
       \<and> oks = oks0 @ map ?f (map fst (filter snd (zip (sc # scs) (False # flags))))
       \<and> map e_type errs = map e_type errs0 @
            map stype (map fst (filter (\<lambda>x. \<not> snd x) (zip (sc # scs) (False # flags))))"
      by auto
    then show ?thesis by blast
  qed
qed

lemma subseq_zip_filter: "subseq (map fst (filter P (zip xs ys))) xs"
proof (induction xs arbitrary: ys)
  case Nil
  then show ?case by simp
next
  case (Cons x xs)
  show ?case
  proof (cases ys)
    case Nil
    then show ?thesis by simp
  next
    case (Cons y ys')
    with Cons.IH [of ys'] show ?thesis by auto
  qed
qed

text \<open>
  C6. When the dump succeeded, the loop calls the backend of every configured entry, in
  the configured order, whatever the earlier entries' outcomes were (an entry of a type
  with no backend fails without a call); every entry adds exactly one outcome; the
  successes and the failures are the entries split by one flag each, in order; and the
  two lists of the returned result are in the configured order.
\<close>

theorem C6_all_destinations_attempted_in_order:
  assumes "ensure_tempDir w = Inr w1"
    and "storage config = s0 # rest"
    and "run_dump name config (staging_path name config s0 w1) w1 = (Inr sz, w2)"
    and "store_all (staging_path name config s0 w1) (storage config) ([], [], w2) = (oks, errs, w3)"
  shows "calls w3 = calls w @ map (backend_call (staging_path name config s0 w1))
                               (filter has_backend (storage config))
    \<and> calls (snd (backupDatabase name config w)) = calls w3
    \<and> length oks + length errs = length (storage config)
    \<and> (\<exists>flags. length flags = length (storage config)
         \<and> oks = map (\<lambda>sc. \<lparr>s_type = stype sc,
                              s_path = store_location (staging_path name config s0 w1) sc,
                              s_success = True\<rparr>)
                   (map fst (filter snd (zip (storage config) flags)))
         \<and> map e_type errs = map stype (map fst (filter (\<lambda>x. \<not> snd x) (zip (storage config) flags))))
    \<and> subseq (storages (fst (backupDatabase name config w)))
         (map (\<lambda>sc. \<lparr>s_type = stype sc,
                      s_path = store_location (staging_path name config s0 w1) sc,
                      s_success = True\<rparr>) (storage config))
    \<and> subseq (map e_type (storageErrors (fst (backupDatabase name config w))))
         (map stype (storage config))"
proof -
  let ?p = "staging_path name config s0 w1"
  let ?f = "\<lambda>sc. \<lparr>s_type = stype sc, s_path = store_location ?p sc, s_success = True\<rparr>"
  have c12: "calls w2 = calls w"
    using run_dump_calls [OF assms(3)] ensure_tempDir_calls [OF assms(1)] by simp
  have a: "calls w3 = calls w @ map (backend_call ?p) (filter has_backend (storage config))"
    using store_all_calls [OF assms(4)] c12 by simp
  have c: "length oks + length errs = length (storage config)"
    using store_all_length [OF assms(4)] by simp
  from store_all_flags [OF assms(4)] obtain flags where
    fl: "length flags = length (storage config)"
      "oks = map ?f (map fst (filter snd (zip (storage config) flags)))"
      "map e_type errs = map stype (map fst (filter (\<lambda>x. \<not> snd x) (zip (storage config) flags)))"
    by auto
  have so: "subseq oks (map ?f (storage config))"
    unfolding fl(2) by (rule subseq_map) (rule subseq_zip_filter)
  have se: "subseq (map e_type errs) (map stype (storage config))"
    unfolding fl(3) by (rule subseq_map) (rule subseq_zip_filter)
  have res: "(fst (backupDatabase name config w) =
               \<lparr>rname = name, success = True, storages = oks, storageErrors = errs,
                rsize = Some sz, error = None\<rparr>
             \<or> (storages (fst (backupDatabase name config w)) = []
                 \<and> storageErrors (fst (backupDatabase name config w)) = []))
            \<and> calls (snd (backupDatabase name config w)) = calls w3"
    using assms unfolding backupDatabase_def backup_try_def
    by (auto simp: Let_def split: if_splits sum.splits dest: unlinkSync_calls)
  then have b: "calls (snd (backupDatabase name config w)) = calls w3" by simp
  from res so have d: "subseq (storages (fst (backupDatabase name config w))) (map ?f (storage config))"
    by auto
  from res se have e: "subseq (map e_type (storageErrors (fst (backupDatabase name config w))))
         (map stype (storage config))"
    by auto
  from a b c fl d e show ?thesis by blast
qed

theorem C6_all_destinations_attempted_in_order_witness:
  "calls (snd (backupDatabase ''db'' (ex_db ''mysql'' [ex_local ''/backups'' 1, ex_local ''/ok'' 1])
                 ex_world_rotation_fails)) =
     [CallSaveToLocal (''/tmp/backups'', ''db_2024-01-15_10-30-00-000.sql.gz'') (ex_local ''/backups'' 1),
      CallSaveToLocal (''/tmp/backups'', ''db_2024-01-15_10-30-00-000.sql.gz'') (ex_local ''/ok'' 1)]
   \<and> map e_type (storageErrors (fst (backupDatabase ''db''
         (ex_db ''mysql'' [ex_local ''/backups'' 1, ex_local ''/ok'' 1]) ex_world_rotation_fails))) = [''local'']
   \<and> map s_path (storages (fst (backupDatabase ''db''
         (ex_db ''mysql'' [ex_local ''/backups'' 1, ex_local ''/ok'' 1]) ex_world_rotation_fails)))
       = [''/ok/db_2024-01-15_10-30-00-000.sql.gz'']"
proof -
  let ?cfg = "ex_db ''mysql'' [ex_local ''/backups'' 1, ex_local ''/ok'' 1]"
  let ?w = ex_world_rotation_fails
  let ?w1 = "projr (ensure_tempDir ?w)"
  let ?p = "staging_path ''db'' ?cfg (ex_local ''/backups'' 1) ?w1"
  let ?d = "run_dump ''db'' ?cfg ?p ?w1"
  let ?s = "store_all ?p (storage ?cfg) ([], [], snd ?d)"
  have h1: "ensure_tempDir ?w = Inr ?w1"
    by (rule sum_Inr) code_simp
  have h2: "storage ?cfg = ex_local ''/backups'' 1 # [ex_local ''/ok'' 1]"
    by (simp add: ex_db_def)
  have "\<not> isl (fst ?d)" by code_simp
  then have h3: "?d = (Inr (projr (fst ?d)), snd ?d)" by (rule pair_Inr)
  have h4: "?s = (fst ?s, fst (snd ?s), snd (snd ?s))" by (rule triple_collapse)
  have p: "?p = (''/tmp/backups'', ''db_2024-01-15_10-30-00-000.sql.gz'')" by code_simp
  have c0: "calls ?w = []" by code_simp
  have hb: "filter has_backend (storage ?cfg) = [ex_local ''/backups'' 1, ex_local ''/ok'' 1]"
    by (simp add: has_backend_def ex_db_def ex_local_def)
  have bc: "backend_call q (ex_local d k) = CallSaveToLocal q (ex_local d k)" for q d k
    by (simp add: backend_call_def ex_local_def)
  have r: "map e_type (storageErrors (fst (backupDatabase ''db'' ?cfg ?w))) = [''local'']
     \<and> map s_path (storages (fst (backupDatabase ''db'' ?cfg ?w))) = [''/ok/db_2024-01-15_10-30-00-000.sql.gz'']"
    by code_simp
  from C6_all_destinations_attempted_in_order [OF h1 h2 h3 h4] p c0 hb bc r
  show ?thesis by simp
qed

section \<open>A rotation that fails\<close>





section \<open>Rotation\<close>







text \<open>\<open>path.join\<close> of a directory and the name of one of its entries.\<close>

lemma split_slash_not_Nil [simp]: "split_slash s \<noteq> []"
  by (induction s) (auto split: list.splits)





text \<open>
  A destination directory written with a trailing slash, \<open>.\<close> or \<open>..\<close> is the same
  directory, and a file name with a slash names a file of a subdirectory.
\<close>

lemma path_join_examples:
  "path_join ''/tmp/backups/'' ''x.sql.gz'' = (''/tmp/backups'', ''x.sql.gz'')
   \<and> path_str (path_join ''./a/../b//'' ''x.sql.gz'') = ''b/x.sql.gz''
   \<and> path_join ''/tmp/backups'' ''a/b.sql.gz'' = (''/tmp/backups/a'', ''b.sql.gz'')
   \<and> path_str (path_join [] ''x'') = ''x''
   \<and> path_str (path_join ''/'' ''x'') = ''/x''
   \<and> path_str (path_join ''/a'' ''../../x'') = ''/x''"
  by code_simp














end
